theory Spec2Isabelle
  imports Complex_Main "HOL-Library.Char_ord" "HOL-Library.List_Lexorder"
begin

section \<open>Go values\<close>

text \<open>
  A Go \<open>string\<close> and a \<open>[]byte\<close> are sequences of bytes: both are modelled as
  \<open>string\<close> (a list of 8-bit characters). A Go \<open>int\<close> is modelled as \<open>int\<close>;
  where the program depends on its 64-bit range (\<open>strconv.Atoi\<close>) the bounds are
  written out.

  An \<open>error\<close> value is modelled by how it was built. \<open>ErrorString\<close> is
  \<open>errors.New\<close> or a \<open>fmt.Errorf\<close> whose arguments are strings and integers, with
  the formatted message. \<open>Errorf fmt args e\<close> is a \<open>fmt.Errorf\<close> call kept as it
  was made: the format string, its string arguments and, when the last argument is
  another error, that error. The other constructors are the error types of
  \<open>strconv\<close> and \<open>net/url\<close>.
\<close>

datatype error =
    ErrorString string
  | Errorf string "string list" "error option"
  | NumError string string error
  | EscapeError string
  | InvalidHostError string
  | URLError string string error

definition ErrSyntax :: error where
  "ErrSyntax = ErrorString ''invalid syntax''"

definition ErrRange :: error where
  "ErrRange = ErrorString ''value out of range''"

subsection \<open>Package strings and bytes\<close>

fun HasPrefix :: "string \<Rightarrow> string \<Rightarrow> bool" where
  "HasPrefix s [] = True"
| "HasPrefix [] (p # ps) = False"
| "HasPrefix (c # cs) (p # ps) = (c = p \<and> HasPrefix cs ps)"

text \<open>
  \<open>Index s sep\<close> is the position of the first occurrence of \<open>sep\<close> in \<open>s\<close>, or \<open>-1\<close>.
\<close>

fun Index :: "string \<Rightarrow> string \<Rightarrow> int" where
  "Index [] sep = (if sep = [] then 0 else - 1)"
| "Index (c # cs) sep =
     (if HasPrefix (c # cs) sep then 0
      else (let i = Index cs sep in if i < 0 then - 1 else i + 1))"

definition Contains :: "string \<Rightarrow> string \<Rightarrow> bool" where
  "Contains s substr = (0 \<le> Index s substr)"

text \<open>
  \<open>Cut s sep\<close> slices \<open>s\<close> around the first occurrence of \<open>sep\<close>; without one it
  returns \<open>(s, '''', False)\<close>.
\<close>

definition Cut :: "string \<Rightarrow> string \<Rightarrow> string \<times> string \<times> bool" where
  "Cut s sep =
     (let i = Index s sep in
      if 0 \<le> i then (take (nat i) s, drop (nat i + length sep) s, True)
      else (s, [], False))"

text \<open>
  \<open>bytes.Count\<close> counts the non-overlapping occurrences of \<open>sep\<close>, and
  \<open>bytes.Replace s old new n\<close> replaces the first \<open>n\<close> of them (all of them when
  \<open>n < 0\<close>), searching on from the end of each replaced occurrence. The program
  calls \<open>Replace\<close> with a non-empty \<open>old\<close> only; the rune-wise branch that Go takes
  for an empty pattern is not part of the model (\<open>Count\<close> is \<open>0\<close> there, so
  \<open>Replace\<close> returns \<open>s\<close>).
\<close>

function Count :: "string \<Rightarrow> string \<Rightarrow> nat" where
  "Count s sep =
     (if sep = [] then 0
      else (let i = Index s sep in
            if i = - 1 then 0
            else 1 + Count (drop (nat i + length sep) s) sep))"
  by pat_completeness auto
termination
proof (relation "measure (\<lambda>(s, sep). length s)")
  fix s sep :: string and i :: int
  assume "sep \<noteq> []" and "i = Index s sep" and "i \<noteq> - 1"
  then show "((drop (nat i + length sep) s, sep), (s, sep)) \<in> measure (\<lambda>(s, sep). length s)"
    by (cases s; cases sep) auto
qed simp

fun replace_loop :: "nat \<Rightarrow> string \<Rightarrow> string \<Rightarrow> string \<Rightarrow> string" where
  "replace_loop 0 s old new = s"
| "replace_loop (Suc k) s old new =
     (let j = nat (Index s old) in
      take j s @ new @ replace_loop k (drop (j + length old) s) old new)"

definition Replace :: "string \<Rightarrow> string \<Rightarrow> string \<Rightarrow> int \<Rightarrow> string" where
  "Replace s old new n =
     (let m = (if n \<noteq> 0 then Count s old else 0) in
      if m = 0 then s
      else replace_loop (if n < 0 \<or> int m < n then m else nat n) s old new)"

subsection \<open>Package strconv\<close>

definition isDigit :: "char \<Rightarrow> bool" where
  "isDigit c = (CHR ''0'' \<le> c \<and> c \<le> CHR ''9'')"

definition digitVal :: "char \<Rightarrow> nat" where
  "digitVal c = of_char c - of_char CHR ''0''"

text \<open>
  \<open>strconv.Itoa\<close>, which is also what the verb \<open>%d\<close> of \<open>fmt\<close> prints for an
  \<open>int\<close>.
\<close>

definition digits :: string where
  "digits = ''0123456789''"

fun formatBits :: "nat \<Rightarrow> string" where
  "formatBits n =
     (if n < 10 then [digits ! n] else formatBits (n div 10) @ [digits ! (n mod 10)])"

declare formatBits.simps [simp del]

definition Itoa :: "int \<Rightarrow> string" where
  "Itoa i = (if i < 0 then CHR ''-'' # formatBits (nat (- i)) else formatBits (nat i))"

text \<open>
  \<open>strconv.Atoi\<close> on a platform whose \<open>int\<close> has 64 bits. Strings of fewer than 19
  bytes take the fast path, which cannot overflow; the others go through
  \<open>ParseInt s 10 0\<close> and \<open>ParseUint\<close>, whose overflow checks on \<open>uint64\<close> are the
  comparisons with \<open>maxUint64\<close> below. Every error comes back as a \<open>NumError\<close> of
  function \<open>Atoi\<close> on the whole input.
\<close>

definition intSize :: nat where
  "intSize = 64"

definition maxUint64 :: nat where
  "maxUint64 = 2 ^ 64 - 1"

fun atoi_fast :: "int \<Rightarrow> string \<Rightarrow> int option" where
  "atoi_fast n [] = Some n"
| "atoi_fast n (ch # s) =
     (if isDigit ch then atoi_fast (n * 10 + int (digitVal ch)) s else None)"

text \<open>
  The loop of \<open>ParseUint\<close> in base 10: \<open>Inl\<close> is the error it stops with.
\<close>

fun parseUint_loop :: "nat \<Rightarrow> string \<Rightarrow> error + nat" where
  "parseUint_loop n [] = Inr n"
| "parseUint_loop n (c # s) =
     (if \<not> isDigit c then Inl ErrSyntax
      else if maxUint64 div 10 + 1 \<le> n then Inl ErrRange
      else if maxUint64 < n * 10 + digitVal c then Inl ErrRange
      else parseUint_loop (n * 10 + digitVal c) s)"

definition ParseUint :: "string \<Rightarrow> nat \<times> error option" where
  "ParseUint s =
     (if s = [] then (0, Some (NumError ''ParseUint'' s ErrSyntax))
      else (case parseUint_loop 0 s of
              Inl e \<Rightarrow> (if e = ErrRange then maxUint64 else 0, Some (NumError ''ParseUint'' s e))
            | Inr n \<Rightarrow> (n, None)))"

definition ParseInt :: "string \<Rightarrow> int \<times> error option" where
  "ParseInt s0 =
     (if s0 = [] then (0, Some (NumError ''ParseInt'' s0 ErrSyntax))
      else
        (let neg = (hd s0 = CHR ''-'');
             s = (if hd s0 = CHR ''+'' \<or> hd s0 = CHR ''-'' then tl s0 else s0);
             (un, err) = ParseUint s;
             cutoff = (2::nat) ^ (intSize - 1)
         in if err \<noteq> None \<and> err \<noteq> Some (NumError ''ParseUint'' s ErrRange)
            then (0, Some (NumError ''ParseInt'' s0 ErrSyntax))
            else if \<not> neg \<and> cutoff \<le> un then (int cutoff - 1, Some (NumError ''ParseInt'' s0 ErrRange))
            else if neg \<and> cutoff < un then (- int cutoff, Some (NumError ''ParseInt'' s0 ErrRange))
            else (if neg then - int un else int un, None)))"

definition Atoi :: "string \<Rightarrow> error + int" where
  "Atoi s0 =
     (if 0 < length s0 \<and> length s0 < 19 then
        (let s = (if hd s0 = CHR ''-'' \<or> hd s0 = CHR ''+'' then tl s0 else s0)
         in if length s < 1 then Inl (NumError ''Atoi'' s0 ErrSyntax)
            else (case atoi_fast 0 s of
                    None \<Rightarrow> Inl (NumError ''Atoi'' s0 ErrSyntax)
                  | Some n \<Rightarrow> Inr (if hd s0 = CHR ''-'' then - n else n)))
      else
        (case ParseInt s0 of
           (i64, Some (NumError f num e)) \<Rightarrow> Inl (NumError ''Atoi'' num e)
         | (i64, Some e) \<Rightarrow> Inl e
         | (i64, None) \<Rightarrow> Inr i64))"

section \<open>Package net/url\<close>

text \<open>
  The repository parses, resolves and prints URLs with Go's \<open>net/url\<close>. This section
  models the functions it calls, after the standard library's source: \<open>Parse\<close>,
  \<open>ResolveReference\<close>, \<open>String\<close>, \<open>Query\<close>, and \<open>Values\<close> with \<open>Get\<close>, \<open>Set\<close>
  and \<open>Encode\<close>.
\<close>

datatype encoding =
    encodePath | encodePathSegment | encodeHost | encodeZone
  | encodeUserPassword | encodeQueryComponent | encodeFragment

record Userinfo =
  username :: string
  password :: string
  passwordSet :: bool

record URL =
  Scheme :: string
  Opaque :: string
  User :: "Userinfo option"
  Host :: string
  Path :: string
  RawPath :: string
  OmitHost :: bool
  ForceQuery :: bool
  RawQuery :: string
  Fragment :: string
  RawFragment :: string

definition emptyURL :: URL where
  "emptyURL = \<lparr>Scheme = [], Opaque = [], User = None, Host = [], Path = [], RawPath = [],
     OmitHost = False, ForceQuery = False, RawQuery = [], Fragment = [], RawFragment = []\<rparr>"

definition isAlpha :: "char \<Rightarrow> bool" where
  "isAlpha b = ((CHR ''a'' \<le> b \<and> b \<le> CHR ''z'') \<or> (CHR ''A'' \<le> b \<and> b \<le> CHR ''Z''))"

definition ishex :: "char \<Rightarrow> bool" where
  "ishex c = (CHR ''0'' \<le> c \<and> c \<le> CHR ''9'' \<or> CHR ''a'' \<le> c \<and> c \<le> CHR ''f''
              \<or> CHR ''A'' \<le> c \<and> c \<le> CHR ''F'')"

definition unhex :: "char \<Rightarrow> nat" where
  "unhex c =
     (if CHR ''0'' \<le> c \<and> c \<le> CHR ''9'' then of_char c - of_char CHR ''0''
      else if CHR ''a'' \<le> c \<and> c \<le> CHR ''f'' then of_char c - of_char CHR ''a'' + 10
      else if CHR ''A'' \<le> c \<and> c \<le> CHR ''F'' then of_char c - of_char CHR ''A'' + 10
      else 0)"

definition upperhex :: "nat \<Rightarrow> char" where
  "upperhex n = ''0123456789ABCDEF'' ! n"

definition toLower :: "char \<Rightarrow> char" where
  "toLower c =
     (if CHR ''A'' \<le> c \<and> c \<le> CHR ''Z'' then char_of (of_char c + 32 :: nat) else c)"

definition stringContainsCTLByte :: "string \<Rightarrow> bool" where
  "stringContainsCTLByte s = list_ex (\<lambda>b. b < CHR '' '' \<or> b = CHR 0x7F) s"

text \<open>
  \<open>shouldEscape c mode\<close>: whether byte \<open>c\<close> is percent-encoded in the part of a URL
  that \<open>mode\<close> names.
\<close>

definition shouldEscape :: "char \<Rightarrow> encoding \<Rightarrow> bool" where
  "shouldEscape c mode =
     (if isAlpha c \<or> isDigit c then False
      else if (mode = encodeHost \<or> mode = encodeZone) \<and> c \<in> set ''!$&'()*+,;=:[]<>\"'' then False
      else if c \<in> set ''-_.~'' then False
      else if c \<in> set ''$&+,/:;=?@'' then
        (case mode of
           encodePath \<Rightarrow> c = CHR ''?''
         | encodePathSegment \<Rightarrow> c = CHR ''/'' \<or> c = CHR '';'' \<or> c = CHR '','' \<or> c = CHR ''?''
         | encodeUserPassword \<Rightarrow> c = CHR ''@'' \<or> c = CHR ''/'' \<or> c = CHR ''?'' \<or> c = CHR '':''
         | encodeQueryComponent \<Rightarrow> True
         | encodeFragment \<Rightarrow> False
         | _ \<Rightarrow> True)
      else if mode = encodeFragment \<and> c \<in> set ''!()*'' then False
      else True)"

text \<open>
  \<open>unescape\<close> first checks every percent escape (and, in a host, every byte), then
  decodes. \<open>unescape_check\<close> is the first pass and returns the error it stops at.
\<close>

fun unescape_check :: "encoding \<Rightarrow> string \<Rightarrow> error option" where
  "unescape_check mode [] = None"
| "unescape_check mode (c # s) =
     (if c = CHR ''%'' then
        (if length s < 2 \<or> \<not> ishex (s ! 0) \<or> \<not> ishex (s ! 1)
         then Some (EscapeError (take 3 (c # s)))
         else if mode = encodeHost \<and> unhex (s ! 0) < 8 \<and> take 3 (c # s) \<noteq> ''%25''
         then Some (EscapeError (take 3 (c # s)))
         else if mode = encodeZone \<and> take 3 (c # s) \<noteq> ''%25''
                 \<and> char_of (unhex (s ! 0) * 16 + unhex (s ! 1)) \<noteq> CHR '' ''
                 \<and> shouldEscape (char_of (unhex (s ! 0) * 16 + unhex (s ! 1))) encodeHost
         then Some (EscapeError (take 3 (c # s)))
         else unescape_check mode (drop 2 s))
      else if c = CHR ''+'' then unescape_check mode s
      else if (mode = encodeHost \<or> mode = encodeZone) \<and> c < CHR 0x80 \<and> shouldEscape c encodeHost
      then Some (InvalidHostError [c])
      else unescape_check mode s)"

fun unescape_decode :: "encoding \<Rightarrow> string \<Rightarrow> string" where
  "unescape_decode mode [] = []"
| "unescape_decode mode (c # s) =
     (if c = CHR ''%'' then
        char_of (unhex (s ! 0) * 16 + unhex (s ! 1)) # unescape_decode mode (drop 2 s)
      else if c = CHR ''+'' then
        (if mode = encodeQueryComponent then CHR '' '' else CHR ''+'') # unescape_decode mode s
      else c # unescape_decode mode s)"

definition unescape :: "string \<Rightarrow> encoding \<Rightarrow> error + string" where
  "unescape s mode =
     (case unescape_check mode s of
        Some e \<Rightarrow> Inl e
      | None \<Rightarrow> Inr (unescape_decode mode s))"

definition QueryUnescape :: "string \<Rightarrow> error + string" where
  "QueryUnescape s = unescape s encodeQueryComponent"

definition escape :: "string \<Rightarrow> encoding \<Rightarrow> string" where
  "escape s mode =
     concat (map (\<lambda>c.
       if shouldEscape c mode then
         (if c = CHR '' '' \<and> mode = encodeQueryComponent then ''+''
          else [CHR ''%'', upperhex (of_char c div 16), upperhex (of_char c mod 16)])
       else [c]) s)"

definition QueryEscape :: "string \<Rightarrow> string" where
  "QueryEscape s = escape s encodeQueryComponent"

definition validEncoded :: "string \<Rightarrow> encoding \<Rightarrow> bool" where
  "validEncoded s mode =
     list_all (\<lambda>c. c \<in> set ''!$&'()*+,;=:@[]%'' \<or> \<not> shouldEscape c mode) s"

fun LastIndex :: "string \<Rightarrow> string \<Rightarrow> int" where
  "LastIndex [] sep = (if sep = [] then 0 else - 1)"
| "LastIndex (c # cs) sep =
     (let i = LastIndex cs sep in
      if 0 \<le> i then i + 1 else if HasPrefix (c # cs) sep then 0 else - 1)"

definition HasSuffix :: "string \<Rightarrow> string \<Rightarrow> bool" where
  "HasSuffix s suffix = HasPrefix (rev s) (rev suffix)"

text \<open>
  \<open>Split s c\<close> are the pieces of \<open>s\<close> between the occurrences of the byte \<open>c\<close>: the
  elements that a loop \<open>elem, rest, found = strings.Cut(rest, c)\<close> visits.
\<close>

fun Split :: "string \<Rightarrow> char \<Rightarrow> string list" where
  "Split [] c = [[]]"
| "Split (x # xs) c =
     (if x = c then [] # Split xs c
      else (case Split xs c of y # ys \<Rightarrow> (x # y) # ys | [] \<Rightarrow> [[x]]))"

fun getScheme_loop :: "nat \<Rightarrow> string \<Rightarrow> string \<Rightarrow> error + string \<times> string" where
  "getScheme_loop i [] rawURL = Inr ([], rawURL)"
| "getScheme_loop i (c # cs) rawURL =
     (if isAlpha c then getScheme_loop (Suc i) cs rawURL
      else if isDigit c \<or> c = CHR ''+'' \<or> c = CHR ''-'' \<or> c = CHR ''.'' then
        (if i = 0 then Inr ([], rawURL) else getScheme_loop (Suc i) cs rawURL)
      else if c = CHR '':'' then
        (if i = 0 then Inl (ErrorString ''missing protocol scheme'')
         else Inr (take i rawURL, drop (i + 1) rawURL))
      else Inr ([], rawURL))"

definition getScheme :: "string \<Rightarrow> error + string \<times> string" where
  "getScheme rawURL = getScheme_loop 0 rawURL rawURL"

definition validOptionalPort :: "string \<Rightarrow> bool" where
  "validOptionalPort port =
     (if port = [] then True
      else if hd port \<noteq> CHR '':'' then False
      else list_all isDigit (tl port))"

definition validUserinfo :: "string \<Rightarrow> bool" where
  "validUserinfo s = list_all (\<lambda>r. isAlpha r \<or> isDigit r \<or> r \<in> set ''-._:~!$&'()*+,;=%@'') s"

definition parseHost :: "string \<Rightarrow> error + string" where
  "parseHost host =
     (if HasPrefix host ''['' then
        (let i = LastIndex host '']'' in
         if i < 0 then Inl (ErrorString ''missing ']' in host'')
         else if \<not> validOptionalPort (drop (nat i + 1) host)
         then Inl (Errorf ''invalid port %q after host'' [drop (nat i + 1) host] None)
         else
           (let zone = Index (take (nat i) host) ''%25'' in
            if 0 \<le> zone then
              (case unescape (take (nat zone) host) encodeHost of
                 Inl err \<Rightarrow> Inl err
               | Inr host1 \<Rightarrow>
                   (case unescape (drop (nat zone) (take (nat i) host)) encodeZone of
                      Inl err \<Rightarrow> Inl err
                    | Inr host2 \<Rightarrow>
                        (case unescape (drop (nat i) host) encodeHost of
                           Inl err \<Rightarrow> Inl err
                         | Inr host3 \<Rightarrow> Inr (host1 @ host2 @ host3))))
            else unescape host encodeHost))
      else
        (let i = LastIndex host '':'' in
         if i \<noteq> - 1 \<and> \<not> validOptionalPort (drop (nat i) host)
         then Inl (Errorf ''invalid port %q after host'' [drop (nat i) host] None)
         else unescape host encodeHost))"

definition parseAuthority :: "string \<Rightarrow> error + Userinfo option \<times> string" where
  "parseAuthority authority =
     (let i = LastIndex authority ''@'' in
      case (if i < 0 then parseHost authority else parseHost (drop (nat i + 1) authority)) of
        Inl err \<Rightarrow> Inl err
      | Inr host \<Rightarrow>
          if i < 0 then Inr (None, host)
          else
            (let userinfo = take (nat i) authority in
             if \<not> validUserinfo userinfo then Inl (ErrorString ''net/url: invalid userinfo'')
             else if \<not> Contains userinfo '':'' then
               (case unescape userinfo encodeUserPassword of
                  Inl err \<Rightarrow> Inl err
                | Inr name \<Rightarrow>
                    Inr (Some \<lparr>username = name, password = [], passwordSet = False\<rparr>, host))
             else
               (case Cut userinfo '':'' of (name0, pass0, found) \<Rightarrow>
                  (case unescape name0 encodeUserPassword of
                     Inl err \<Rightarrow> Inl err
                   | Inr name \<Rightarrow>
                       (case unescape pass0 encodeUserPassword of
                          Inl err \<Rightarrow> Inl err
                        | Inr pass \<Rightarrow>
                            Inr (Some \<lparr>username = name, password = pass, passwordSet = True\<rparr>,
                                 host))))))"

definition setPath :: "URL \<Rightarrow> string \<Rightarrow> error + URL" where
  "setPath u p =
     (case unescape p encodePath of
        Inl err \<Rightarrow> Inl err
      | Inr path \<Rightarrow>
          Inr (u\<lparr>Path := path, RawPath := (if p = escape path encodePath then [] else p)\<rparr>))"

definition setFragment :: "URL \<Rightarrow> string \<Rightarrow> error + URL" where
  "setFragment u f =
     (case unescape f encodeFragment of
        Inl err \<Rightarrow> Inl err
      | Inr frag \<Rightarrow>
          Inr (u\<lparr>Fragment := frag,
                 RawFragment := (if f = escape frag encodeFragment then [] else f)\<rparr>))"

text \<open>
  \<open>parse\<close> is the unexported worker of \<open>Parse\<close>; \<open>viaRequest\<close> is \<open>False\<close> in every
  call that the program makes.
\<close>

definition parse :: "string \<Rightarrow> bool \<Rightarrow> error + URL" where
  "parse rawURL viaRequest =
     (if stringContainsCTLByte rawURL
      then Inl (ErrorString ''net/url: invalid control character in URL'')
      else if rawURL = [] \<and> viaRequest then Inl (ErrorString ''empty url'')
      else if rawURL = ''*'' then Inr (emptyURL\<lparr>Path := ''*''\<rparr>)
      else
        (case getScheme rawURL of
           Inl err \<Rightarrow> Inl err
         | Inr (scheme0, rest0) \<Rightarrow>
             (let scheme = map toLower scheme0;
                  force = (HasSuffix rest0 ''?'' \<and> Count rest0 ''?'' = 1);
                  rest = (if force then butlast rest0 else fst (Cut rest0 ''?''));
                  query = (if force then [] else fst (snd (Cut rest0 ''?'')));
                  url = emptyURL\<lparr>Scheme := scheme, ForceQuery := force, RawQuery := query\<rparr>
              in
                if \<not> HasPrefix rest ''/'' \<and> scheme \<noteq> [] then Inr (url\<lparr>Opaque := rest\<rparr>)
                else if \<not> HasPrefix rest ''/'' \<and> viaRequest
                then Inl (ErrorString ''invalid URI for request'')
                else if \<not> HasPrefix rest ''/'' \<and> Contains (fst (Cut rest ''/'')) '':''
                then Inl (ErrorString ''first path segment in URL cannot contain colon'')
                else if (scheme \<noteq> [] \<or> \<not> viaRequest \<and> \<not> HasPrefix rest ''///'')
                        \<and> HasPrefix rest ''//''
                then
                  (let authority0 = drop 2 rest;
                       i = Index authority0 ''/'';
                       authority = (if 0 \<le> i then take (nat i) authority0 else authority0);
                       rest' = (if 0 \<le> i then drop (nat i) authority0 else [])
                   in case parseAuthority authority of
                        Inl err \<Rightarrow> Inl err
                      | Inr (user, host) \<Rightarrow> setPath (url\<lparr>User := user, Host := host\<rparr>) rest')
                else if scheme \<noteq> [] \<and> HasPrefix rest ''/''
                then setPath (url\<lparr>OmitHost := True\<rparr>) rest
                else setPath url rest)))"

definition Parse :: "string \<Rightarrow> error + URL" where
  "Parse rawURL =
     (case Cut rawURL ''#'' of (u, frag, found) \<Rightarrow>
        (case parse u False of
           Inl err \<Rightarrow> Inl (URLError ''parse'' u err)
         | Inr url \<Rightarrow>
             if frag = [] then Inr url
             else (case setFragment url frag of
                     Inl err \<Rightarrow> Inl (URLError ''parse'' rawURL err)
                   | Inr url' \<Rightarrow> Inr url')))"

definition EscapedPath :: "URL \<Rightarrow> string" where
  "EscapedPath u =
     (if RawPath u \<noteq> [] \<and> validEncoded (RawPath u) encodePath
         \<and> unescape (RawPath u) encodePath = Inr (Path u)
      then RawPath u
      else if Path u = ''*'' then ''*''
      else escape (Path u) encodePath)"

definition EscapedFragment :: "URL \<Rightarrow> string" where
  "EscapedFragment u =
     (if RawFragment u \<noteq> [] \<and> validEncoded (RawFragment u) encodeFragment
         \<and> unescape (RawFragment u) encodeFragment = Inr (Fragment u)
      then RawFragment u
      else escape (Fragment u) encodeFragment)"

definition Userinfo_String :: "Userinfo \<Rightarrow> string" where
  "Userinfo_String ui =
     escape (username ui) encodeUserPassword
     @ (if passwordSet ui then '':'' @ escape (password ui) encodeUserPassword else [])"

text \<open>
  \<open>URL_String\<close> is the method \<open>(*URL).String\<close>; it is also what the verb \<open>%v\<close> prints
  for a \<open>*url.URL\<close>.
\<close>

definition URL_String :: "URL \<Rightarrow> string" where
  "URL_String u =
     (let buf1 = (if Scheme u \<noteq> [] then Scheme u @ '':'' else []);
          buf2 =
            (if Opaque u \<noteq> [] then buf1 @ Opaque u
             else
               (let auth =
                      (if Scheme u \<noteq> [] \<or> Host u \<noteq> [] \<or> User u \<noteq> None then
                         (if OmitHost u \<and> Host u = [] \<and> User u = None then []
                          else
                            (if Host u \<noteq> [] \<or> Path u \<noteq> [] \<or> User u \<noteq> None then ''//'' else [])
                            @ (case User u of None \<Rightarrow> [] | Some ui \<Rightarrow> Userinfo_String ui @ ''@'')
                            @ (if Host u \<noteq> [] then escape (Host u) encodeHost else []))
                       else []);
                    path = EscapedPath u;
                    buf3 = buf1 @ auth
                           @ (if path \<noteq> [] \<and> hd path \<noteq> CHR ''/'' \<and> Host u \<noteq> [] then ''/'' else [])
                in (if buf3 = [] \<and> Contains (fst (Cut path ''/'')) '':'' then ''./'' else buf3)
                   @ path));
          buf4 = buf2 @ (if ForceQuery u \<or> RawQuery u \<noteq> [] then ''?'' @ RawQuery u else [])
      in buf4 @ (if Fragment u \<noteq> [] then ''#'' @ EscapedFragment u else []))"

text \<open>
  \<open>resolvePath\<close> applies the reference path to the base path and removes the dot
  segments; \<open>resolve_elem\<close> is one round of its loop on the buffer \<open>dst\<close> and the
  flag \<open>first\<close>.
\<close>

definition resolve_elem :: "string \<Rightarrow> string \<times> bool \<Rightarrow> string \<times> bool" where
  "resolve_elem elem st =
     (case st of (dst, first) \<Rightarrow>
        if elem = ''.'' then (dst, False)
        else if elem = ''..'' then
          (let str = tl dst; index = LastIndex str ''/'' in
           if index = - 1 then (''/'', True) else (''/'' @ take (nat index) str, first))
        else ((if \<not> first then dst @ ''/'' else dst) @ elem, False))"

definition resolvePath :: "string \<Rightarrow> string \<Rightarrow> string" where
  "resolvePath base ref =
     (let full = (if ref = [] then base
                  else if hd ref \<noteq> CHR ''/'' then take (nat (LastIndex base ''/'' + 1)) base @ ref
                  else ref)
      in if full = [] then []
         else
           (let elems = Split full CHR ''/'';
                dst = fst (fold resolve_elem elems (''/'', True));
                r = (if last elems = ''.'' \<or> last elems = ''..'' then dst @ ''/'' else dst)
            in if 1 < length r \<and> r ! 1 = CHR ''/'' then tl r else r))"

text \<open>
  In \<open>ResolveReference\<close> the error of \<open>setPath\<close> is ignored, as in the library: the
  URL is left as it was when the resolved path does not unescape.
\<close>

definition setPath_ignore :: "URL \<Rightarrow> string \<Rightarrow> URL" where
  "setPath_ignore u p = (case setPath u p of Inl err \<Rightarrow> u | Inr u' \<Rightarrow> u')"

definition ResolveReference :: "URL \<Rightarrow> URL \<Rightarrow> URL" where
  "ResolveReference u ref =
     (let url = (if Scheme ref = [] then ref\<lparr>Scheme := Scheme u\<rparr> else ref) in
      if Scheme ref \<noteq> [] \<or> Host ref \<noteq> [] \<or> User ref \<noteq> None
      then setPath_ignore url (resolvePath (EscapedPath ref) [])
      else if Opaque ref \<noteq> [] then url\<lparr>User := None, Host := [], Path := []\<rparr>
      else
        (let url1 =
               (if Path ref = [] \<and> \<not> ForceQuery ref \<and> RawQuery ref = [] then
                  (let q = url\<lparr>RawQuery := RawQuery u\<rparr> in
                   if Fragment ref = []
                   then q\<lparr>Fragment := Fragment u, RawFragment := RawFragment u\<rparr>
                   else q)
                else url)
         in if Path ref = [] \<and> Opaque u \<noteq> []
            then url1\<lparr>Opaque := Opaque u, User := None, Host := [], Path := []\<rparr>
            else setPath_ignore (url1\<lparr>Host := Host u, User := User u\<rparr>)
                   (resolvePath (EscapedPath u) (EscapedPath ref))))"

subsection \<open>Values\<close>

text \<open>
  \<open>url.Values\<close> and \<open>http.Header\<close> are Go maps from a string to a list of strings.
  They are modelled as association lists with one entry for a key; \<open>Values_lookup\<close>
  is the map access \<open>v[key]\<close>, the empty list for a missing key.
\<close>

type_synonym Values = "(string \<times> string list) list"

definition Values_lookup :: "Values \<Rightarrow> string \<Rightarrow> string list" where
  "Values_lookup v key = (case map_of v key of None \<Rightarrow> [] | Some vs \<Rightarrow> vs)"

fun assign :: "string \<Rightarrow> string list \<Rightarrow> Values \<Rightarrow> Values" where
  "assign key vs [] = [(key, vs)]"
| "assign key vs ((k, w) # m) = (if k = key then (key, vs) # m else (k, w) # assign key vs m)"

definition Values_Get :: "Values \<Rightarrow> string \<Rightarrow> string" where
  "Values_Get v key = (case Values_lookup v key of [] \<Rightarrow> [] | x # xs \<Rightarrow> x)"

definition Values_Set :: "Values \<Rightarrow> string \<Rightarrow> string \<Rightarrow> Values" where
  "Values_Set v key x = assign key [x] v"

definition Values_Add :: "Values \<Rightarrow> string \<Rightarrow> string \<Rightarrow> Values" where
  "Values_Add v key x = assign key (Values_lookup v key @ [x]) v"

text \<open>
  One round of the loop of \<open>parseQuery\<close> on the piece \<open>key\<close> of the query; the state
  is the map and the first error met.
\<close>

definition parseQuery_step :: "string \<Rightarrow> Values \<times> error option \<Rightarrow> Values \<times> error option" where
  "parseQuery_step key st =
     (case st of (m, err) \<Rightarrow>
        if Contains key '';'' then (m, Some (ErrorString ''invalid semicolon separator in query''))
        else if key = [] then (m, err)
        else
          (case Cut key ''='' of (k0, v0, found) \<Rightarrow>
             (case QueryUnescape k0 of
                Inl err1 \<Rightarrow> (m, if err = None then Some err1 else err)
              | Inr k \<Rightarrow>
                  (case QueryUnescape v0 of
                     Inl err1 \<Rightarrow> (m, if err = None then Some err1 else err)
                   | Inr x \<Rightarrow> (Values_Add m k x, err)))))"

definition ParseQuery :: "string \<Rightarrow> Values \<times> error option" where
  "ParseQuery query = fold parseQuery_step (Split query CHR ''&'') ([], None)"

definition Query :: "URL \<Rightarrow> Values" where
  "Query u = fst (ParseQuery (RawQuery u))"

definition Values_Encode :: "Values \<Rightarrow> string" where
  "Values_Encode v =
     (let keys = sort (map fst v);
          items = concat (map (\<lambda>k. map (\<lambda>x. QueryEscape k @ ''='' @ QueryEscape x)
                                        (Values_lookup v k)) keys)
      in case items of
           [] \<Rightarrow> []
         | item # others \<Rightarrow> item @ concat (map (\<lambda>y. ''&'' @ y) others))"

section \<open>Package net/http\<close>

type_synonym Header = Values

definition validHeaderFieldByte :: "char \<Rightarrow> bool" where
  "validHeaderFieldByte c = (isAlpha c \<or> isDigit c \<or> c \<in> set ''!#$%&'*+-.^_`|~'')"

fun canonical_loop :: "bool \<Rightarrow> string \<Rightarrow> string" where
  "canonical_loop upper [] = []"
| "canonical_loop upper (c # cs) =
     (let c' = (if upper \<and> CHR ''a'' \<le> c \<and> c \<le> CHR ''z'' then char_of (of_char c - 32 :: nat)
                else if \<not> upper \<and> CHR ''A'' \<le> c \<and> c \<le> CHR ''Z'' then toLower c
                else c)
      in c' # canonical_loop (c' = CHR ''-'') cs)"

definition CanonicalMIMEHeaderKey :: "string \<Rightarrow> string" where
  "CanonicalMIMEHeaderKey s = (if list_all validHeaderFieldByte s then canonical_loop True s else s)"

definition Header_Add :: "Header \<Rightarrow> string \<Rightarrow> string \<Rightarrow> Header" where
  "Header_Add h key x = Values_Add h (CanonicalMIMEHeaderKey key) x"

definition Header_Set :: "Header \<Rightarrow> string \<Rightarrow> string \<Rightarrow> Header" where
  "Header_Set h key x = Values_Set h (CanonicalMIMEHeaderKey key) x"

definition Header_Get :: "Header \<Rightarrow> string \<Rightarrow> string" where
  "Header_Get h key = Values_Get h (CanonicalMIMEHeaderKey key)"

text \<open>
  An \<open>http.Request\<close> with the fields that the program sets or reads: \<open>ReqBody\<close> holds
  the bytes of its \<open>Body\<close> reader. An \<open>http.Response\<close> likewise: \<open>RespBody\<close> is what
  \<open>ioutil.ReadAll\<close> returns for its \<open>Body\<close>, the bytes or a read error.
\<close>

record http_Request =
  Method :: string
  URL :: URL
  Header :: Header
  ReqBody :: string

record http_Response =
  StatusCode :: int
  Request :: http_Request
  RespBody :: "error + string"

definition validMethod :: "string \<Rightarrow> bool" where
  "validMethod method = (0 < length method \<and> list_all validHeaderFieldByte method)"

definition removeEmptyPort :: "string \<Rightarrow> string" where
  "removeEmptyPort host =
     (if LastIndex host '']'' < LastIndex host '':'' \<and> HasSuffix host '':'' then butlast host
      else host)"

definition http_NewRequest :: "string \<Rightarrow> string \<Rightarrow> string \<Rightarrow> error + http_Request" where
  "http_NewRequest method0 url body =
     (let method = (if method0 = [] then ''GET'' else method0) in
      if \<not> validMethod method then Inl (Errorf ''net/http: invalid method %q'' [method] None)
      else (case Parse url of
              Inl err \<Rightarrow> Inl err
            | Inr u \<Rightarrow>
                Inr \<lparr>Method = method, URL = u\<lparr>Host := removeEmptyPort (Host u)\<rparr>,
                     Header = [], ReqBody = body\<rparr>))"

text \<open>
  \<open>base64.StdEncoding.EncodeToString\<close>, for the credentials of HTTP Basic
  authentication.
\<close>

definition encodeStd :: "nat \<Rightarrow> char" where
  "encodeStd n = ''ABCDEFGHIJKLMNOPQRSTUVWXYZabcdefghijklmnopqrstuvwxyz0123456789+/'' ! n"

fun base64_encode :: "nat list \<Rightarrow> string" where
  "base64_encode [] = []"
| "base64_encode [a] = [encodeStd (a div 4), encodeStd (a mod 4 * 16), CHR ''='', CHR ''='']"
| "base64_encode [a, b] =
     [encodeStd (a div 4), encodeStd (a mod 4 * 16 + b div 16), encodeStd (b mod 16 * 4), CHR ''='']"
| "base64_encode (a # b # c # src) =
     [encodeStd (a div 4), encodeStd (a mod 4 * 16 + b div 16),
      encodeStd (b mod 16 * 4 + c div 64), encodeStd (c mod 64)] @ base64_encode src"

definition basicAuth :: "string \<Rightarrow> string \<Rightarrow> string" where
  "basicAuth user pass = base64_encode (map of_char (user @ '':'' @ pass))"

definition SetBasicAuth :: "http_Request \<Rightarrow> string \<Rightarrow> string \<Rightarrow> http_Request" where
  "SetBasicAuth r user pass =
     r\<lparr>Header := Header_Set (Header r) ''Authorization'' (''Basic '' @ basicAuth user pass)\<rparr>"

section \<open>Package encoding/xml\<close>

text \<open>
  \<open>xml.EscapeText\<close> as \<open>Marshal\<close> applies it to character data. It is modelled
  for ASCII text; a byte from \<open>0x80\<close> up is copied as it is, which is what the
  library does for well-formed UTF-8 other than U+FFFE and U+FFFF.
\<close>

definition EscapeText :: "string \<Rightarrow> string" where
  "EscapeText s =
     concat (map (\<lambda>r.
       if r = CHR 0x22 then ''&#34;''
       else if r = CHR 0x27 then ''&#39;''
       else if r = CHR ''&'' then ''&amp;''
       else if r = CHR ''<'' then ''&lt;''
       else if r = CHR ''>'' then ''&gt;''
       else if r = CHR 0x09 then ''&#x9;''
       else if r = CHR 0x0A then ''&#xA;''
       else if r = CHR 0x0D then ''&#xD;''
       else if r < CHR '' '' then [CHR 0xEF, CHR 0xBF, CHR 0xBD]
       else [r]) s)"

definition element :: "string \<Rightarrow> string \<Rightarrow> string" where
  "element name chardata = ''<'' @ name @ ''>'' @ chardata @ ''</'' @ name @ ''>''"

section \<open>The client\<close>

text \<open>
  The legacy client: its constants, \<open>Client\<close>, \<open>Response\<close>, \<open>NewRequest\<close>, \<open>Do\<close>,
  \<open>readResponse\<close>, \<open>post\<close>, \<open>delete\<close> and \<open>query\<close>.
\<close>

definition defaultBaseURL :: string where
  "defaultBaseURL = ''http://myanimelist.net/''"

definition defaultUserAgent :: string where
  "defaultUserAgent = ''api-indiv-2D4068FCF43349DA30D8D4E5667883C2''"

definition updateMangaURL :: string where
  "updateMangaURL = ''http://myanimelist.net/api/mangalist/update/''"

definition addMangaURL :: string where
  "addMangaURL = ''http://myanimelist.net/api/mangalist/add/''"

definition deleteMangaURL :: string where
  "deleteMangaURL = ''http://myanimelist.net/api/animelist/delete/''"

definition updateAnimeURL :: string where
  "updateAnimeURL = ''http://myanimelist.net/api/animelist/update/''"

definition addAnimeURL :: string where
  "addAnimeURL = ''http://myanimelist.net/api/animelist/add/''"

definition deleteAnimeURL :: string where
  "deleteAnimeURL = ''http://myanimelist.net/api/animelist/delete/''"

text \<open>
  The field \<open>client\<close> is the \<open>*http.Client\<close>: the model keeps its method \<open>Do\<close>, the
  round trip to the server, which returns a response or a transport error. The
  service pointers \<open>Account\<close>, \<open>Anime\<close> and \<open>Manga\<close> of the struct only point back
  to the client and are left out.
\<close>

record Client =
  client :: "http_Request \<Rightarrow> error + http_Response"
  UserAgent :: string
  Username :: string
  Password :: string
  BaseURL :: URL

record Response =
  Response :: http_Response
  Body :: string

text \<open>
  \<open>NewClient\<close> takes the \<open>http.DefaultClient\<close> it installs as a parameter. The error
  of \<open>url.Parse\<close> is ignored, as in the source.
\<close>

definition NewClient :: "(http_Request \<Rightarrow> error + http_Response) \<Rightarrow> Client" where
  "NewClient httpClient =
     \<lparr>client = httpClient, UserAgent = defaultUserAgent, Username = [], Password = [],
      BaseURL = (case Parse defaultBaseURL of Inl err \<Rightarrow> emptyURL | Inr baseURL \<Rightarrow> baseURL)\<rparr>"

definition SetCredentials :: "Client \<Rightarrow> string \<Rightarrow> string \<Rightarrow> Client" where
  "SetCredentials c name pass = c\<lparr>Username := name, Password := pass\<rparr>"

definition SetUserAgent :: "Client \<Rightarrow> string \<Rightarrow> Client" where
  "SetUserAgent c agent = c\<lparr>UserAgent := agent\<rparr>"

text \<open>
  \<open>NewRequest\<close> takes the body as an \<open>interface{}\<close>; \<open>None\<close> is \<open>nil\<close>, and
  \<open>marshal\<close> is \<open>xml.Marshal\<close> at the type of the body.
\<close>

definition NewRequest ::
  "('b \<Rightarrow> error + string) \<Rightarrow> Client \<Rightarrow> string \<Rightarrow> string \<Rightarrow> 'b option \<Rightarrow> error + http_Request"
where
  "NewRequest marshal c method urlStr body =
     (case Parse urlStr of
        Inl err \<Rightarrow> Inl err
      | Inr rel \<Rightarrow>
          (let u = ResolveReference (BaseURL c) rel in
           case (case body of
                   None \<Rightarrow> Inr []
                 | Some b \<Rightarrow>
                     (case marshal b of
                        Inl err \<Rightarrow> Inl err
                      | Inr data \<Rightarrow> Inr (Values_Set [] ''data'' data))) of
             Inl err \<Rightarrow> Inl err
           | Inr v \<Rightarrow>
               (case http_NewRequest method (URL_String u) (Values_Encode v) of
                  Inl err \<Rightarrow> Inl err
                | Inr req \<Rightarrow>
                    (let req1 = (if UserAgent c \<noteq> []
                                 then req\<lparr>Header := Header_Add (Header req) ''User-Agent'' (UserAgent c)\<rparr>
                                 else req);
                         req2 = (if Username c \<noteq> []
                                 then SetBasicAuth req1 (Username c) (Password c)
                                 else req1)
                     in Inr req2))))"

definition readResponse :: "http_Response \<Rightarrow> Response \<times> error option" where
  "readResponse r =
     (case RespBody r of
        Inl err \<Rightarrow>
          (\<lparr>Response = r, Body = []\<rparr>, Some (Errorf ''cannot read response body: %v'' [] (Some err)))
      | Inr data \<Rightarrow>
          (let resp = \<lparr>Response = r, Body = data\<rparr> in
           if StatusCode r < 200 \<or> 299 < StatusCode r then
             (resp, Some (ErrorString (Method (Request r) @ '' '' @ URL_String (URL (Request r))
                                       @ '': '' @ Itoa (StatusCode r) @ '' '' @ data)))
           else (resp, None)))"

text \<open>
  \<open>Do\<close> decodes into the target \<open>v\<close>: \<open>None\<close> is a \<open>nil\<close> target, and \<open>Some unmarshal\<close>
  is a target together with \<open>xml.Unmarshal\<close> at its type, a function from the bytes to
  the decoded value or an error. The result is the returned \<open>*Response\<close> (\<open>None\<close> for
  \<open>nil\<close>), the returned error, and the value decoded into the target, if any.
\<close>

definition Do ::
  "Client \<Rightarrow> http_Request \<Rightarrow> (string \<Rightarrow> error + 'v) option
     \<Rightarrow> Response option \<times> error option \<times> 'v option"
where
  "Do c req v =
     (case client c req of
        Inl err \<Rightarrow> (None, Some err, None)
      | Inr resp \<Rightarrow>
          (case readResponse resp of
             (response, Some err) \<Rightarrow> (Some response, Some err, None)
           | (response, None) \<Rightarrow>
               (case v of
                  None \<Rightarrow> (Some response, None, None)
                | Some unmarshal \<Rightarrow>
                    (let b = Replace (Body response) ''&bull;'' ''<![CDATA[&bull;]]>'' (- 1) in
                     case unmarshal b of
                       Inl err \<Rightarrow> (Some response, Some (Errorf ''cannot decode: %v'' [] (Some err)), None)
                     | Inr x \<Rightarrow> (Some response, None, Some x)))))"

text \<open>
  The rewrite that \<open>Do\<close> applies to the body before it decodes it.
\<close>

abbreviation bull_rewrite :: "string \<Rightarrow> string" where
  "bull_rewrite b \<equiv> Replace b ''&bull;'' ''<![CDATA[&bull;]]>'' (- 1)"

definition nil_target :: "(string \<Rightarrow> error + unit) option" where
  "nil_target = None"

definition post ::
  "('b \<Rightarrow> error + string) \<Rightarrow> Client \<Rightarrow> string \<Rightarrow> int \<Rightarrow> 'b \<Rightarrow> Response option \<times> error option"
where
  "post marshal c endpoint id' entry =
     (case NewRequest marshal c ''POST'' (endpoint @ Itoa id' @ ''.xml'') (Some entry) of
        Inl err \<Rightarrow> (None, Some err)
      | Inr req \<Rightarrow>
          (let req' = req\<lparr>Header := Header_Add (Header req) ''Content-Type''
                                      ''application/x-www-form-urlencoded''\<rparr>
           in case Do c req' nil_target of
                (resp, Some err, x) \<Rightarrow> (None, Some err)
              | (resp, None, x) \<Rightarrow> (resp, None)))"

definition no_body :: "unit option" where
  "no_body = None"

definition delete :: "Client \<Rightarrow> string \<Rightarrow> int \<Rightarrow> Response option \<times> error option" where
  "delete c endpoint id' =
     (case NewRequest (\<lambda>b. Inr []) c ''DELETE'' (endpoint @ Itoa id' @ ''.xml'') no_body of
        Inl err \<Rightarrow> (None, Some err)
      | Inr req \<Rightarrow>
          (case Do c req nil_target of
             (resp, Some err, x) \<Rightarrow> (None, Some err)
           | (resp, None, x) \<Rightarrow> (resp, None)))"

definition query ::
  "Client \<Rightarrow> string \<Rightarrow> (string \<Rightarrow> error + 'v) option
     \<Rightarrow> Response option \<times> error option \<times> 'v option"
where
  "query c url result =
     (case NewRequest (\<lambda>b. Inr []) c ''GET'' url no_body of
        Inl err \<Rightarrow> (None, Some err, None)
      | Inr req \<Rightarrow>
          (case Do c req result of
             (resp, Some err, x) \<Rightarrow> (resp, Some err, x)
           | (resp, None, x) \<Rightarrow> (resp, None, x)))"

section \<open>The anime service\<close>

text \<open>
  The type \<open>Status\<close> of the package is a struct of five strings. Its tags are JSON
  tags only.
\<close>

record Status =
  Watching :: string
  Completed :: string
  OnHold :: string
  Dropped :: string
  PlanToWatch :: string

text \<open>
  \<open>Marshal_Status\<close> is the content that \<open>xml.Marshal\<close> writes for a \<open>Status\<close>. A field
  without an XML tag is a child element named after the field, and without
  \<open>omitempty\<close> it is written also when it is empty.
\<close>

definition Marshal_Status :: "Status \<Rightarrow> string" where
  "Marshal_Status st =
     element ''Watching'' (EscapeText (Watching st))
     @ element ''Completed'' (EscapeText (Completed st))
     @ element ''OnHold'' (EscapeText (OnHold st))
     @ element ''Dropped'' (EscapeText (Dropped st))
     @ element ''PlanToWatch'' (EscapeText (PlanToWatch st))"

text \<open>
  \<open>AnimeEntry\<close> with its fields in the order of the struct; the field \<open>XMLName\<close> is left
  out, since its tag fixes the name of the element. \<open>Marshal_AnimeEntry\<close> is
  \<open>xml.Marshal\<close> on it, read off the struct tags: the element is named \<open>entry\<close>, each
  field is a child element, and a field tagged \<open>omitempty\<close> is left out when it is
  zero or empty. The field \<open>Status\<close> is tagged \<open>omitempty\<close>, but it is a struct, and
  \<open>xml.Marshal\<close> takes no struct for empty: the element \<open>status\<close> is always written.
  The one \<open>float64\<close> field is a \<open>real\<close>, printed by the parameter \<open>FormatFloat\<close>.
\<close>

record AnimeEntry =
  Episode :: int
  Status :: Status
  Score :: int
  DownloadedEpisodes :: int
  StorageType :: int
  StorageValue :: real
  TimesRewatched :: int
  RewatchValue :: int
  DateStart :: string
  DateFinish :: string
  Priority :: int
  EnableDiscussion :: int
  EnableRewatching :: int
  Comments :: string
  FansubGroup :: string
  Tags :: string

definition Marshal_AnimeEntry :: "(real \<Rightarrow> string) \<Rightarrow> AnimeEntry \<Rightarrow> error + string" where
  "Marshal_AnimeEntry FormatFloat e =
     Inr (''<entry>''
       @ element ''episode'' (Itoa (Episode e))
       @ element ''status'' (Marshal_Status (Status e))
       @ element ''score'' (Itoa (Score e))
       @ (if DownloadedEpisodes e = 0 then []
          else element ''downloaded_episodes'' (Itoa (DownloadedEpisodes e)))
       @ (if StorageType e = 0 then [] else element ''storage_type'' (Itoa (StorageType e)))
       @ (if StorageValue e = 0 then []
          else element ''storage_value'' (FormatFloat (StorageValue e)))
       @ element ''times_rewatched'' (Itoa (TimesRewatched e))
       @ (if RewatchValue e = 0 then [] else element ''rewatch_value'' (Itoa (RewatchValue e)))
       @ (if DateStart e = [] then [] else element ''date_start'' (EscapeText (DateStart e)))
       @ (if DateFinish e = [] then [] else element ''date_finish'' (EscapeText (DateFinish e)))
       @ (if Priority e = 0 then [] else element ''priority'' (Itoa (Priority e)))
       @ (if EnableDiscussion e = 0 then []
          else element ''enable_discussion'' (Itoa (EnableDiscussion e)))
       @ element ''enable_rewatching'' (Itoa (EnableRewatching e))
       @ element ''comments'' (EscapeText (Comments e))
       @ (if FansubGroup e = [] then [] else element ''fansub_group'' (EscapeText (FansubGroup e)))
       @ (if Tags e = [] then [] else element ''tags'' (EscapeText (Tags e)))
       @ ''</entry>'')"

record AnimeService =
  client' :: Client
  AddEndpoint :: URL
  UpdateEndpoint :: URL
  DeleteEndpoint :: URL
  SearchEndpoint :: URL
  ListEndpoint :: URL

text \<open>
  \<open>Add\<close>, \<open>Update\<close> and \<open>Delete\<close> pass the endpoint, the id and the entry to \<open>post\<close>
  and \<open>delete\<close>. The source passes a fourth argument \<open>true\<close>, which the \<open>post\<close> and
  \<open>delete\<close> of the client do not take; it is dropped.
\<close>

definition Add ::
  "(real \<Rightarrow> string) \<Rightarrow> AnimeService \<Rightarrow> int \<Rightarrow> AnimeEntry \<Rightarrow> Response option \<times> error option"
where
  "Add FormatFloat s animeID entry =
     post (Marshal_AnimeEntry FormatFloat) (client' s) (URL_String (AddEndpoint s)) animeID entry"

definition Update ::
  "(real \<Rightarrow> string) \<Rightarrow> AnimeService \<Rightarrow> int \<Rightarrow> AnimeEntry \<Rightarrow> Response option \<times> error option"
where
  "Update FormatFloat s animeID entry =
     post (Marshal_AnimeEntry FormatFloat) (client' s) (URL_String (UpdateEndpoint s)) animeID entry"

definition Delete :: "AnimeService \<Rightarrow> int \<Rightarrow> Response option \<times> error option" where
  "Delete s animeID = delete (client' s) (URL_String (DeleteEndpoint s)) animeID"

subsection \<open>Listing\<close>

definition parseOffset :: "string \<Rightarrow> error + int" where
  "parseOffset urlStr =
     (case Parse urlStr of
        Inl err \<Rightarrow> Inl (Errorf ''parsing URL %q: %s'' [urlStr] (Some err))
      | Inr u \<Rightarrow>
          (case Atoi (Values_Get (Query u) ''offset'') of
             Inl err \<Rightarrow> Inl (Errorf ''parsing offset: %s'' [] (Some err))
           | Inr offset \<Rightarrow> Inr offset))"

record Paging =
  Next :: string
  Previous :: string

text \<open>
  \<open>animeList\<close> is the decoded envelope; \<open>'a\<close> stands for the struct \<open>Anime\<close>, a plain
  record of decoded fields, and an element of \<open>Data\<close> is the struct with the one field
  \<open>Anime\<close> (the JSON key \<open>node\<close>).
\<close>

record 'a node =
  Anime :: 'a

record 'a animeList =
  Data :: "'a node list"
  Paging :: Paging

text \<open>
  Modelled from the spec: the \<open>Response\<close> of the current API generation is not under
  \<open>src/\<close>. It wraps the transport response and the buffered body, as the legacy one,
  and has the next and previous offsets that \<open>List\<close> assigns.
\<close>

record PagedResponse = Response +
  NextOffset :: int
  PrevOffset :: int

definition Join :: "string list \<Rightarrow> string \<Rightarrow> string" where
  "Join elems sep =
     (case elems of [] \<Rightarrow> [] | e # es \<Rightarrow> e @ concat (map (\<lambda>x. sep @ x) es))"

text \<open>
  \<open>List\<close> calls the \<open>NewRequest\<close> and \<open>Do\<close> of the current API generation, which are
  not under \<open>src/\<close>; they are the parameters \<open>newRequest\<close> and \<open>do\<close>. \<open>do\<close> returns
  \<open>Inl\<close> with the response (possibly \<open>nil\<close>) and the error when it fails, and \<open>Inr\<close>
  with the response and the decoded list when it succeeds. The result of \<open>List\<close> is
  the slice (\<open>None\<close> for \<open>nil\<close>), the response and the error.
\<close>

definition List_request :: "http_Request \<Rightarrow> string \<Rightarrow> int \<Rightarrow> int \<Rightarrow> string list \<Rightarrow> http_Request" where
  "List_request req query' limit offset fields' =
     (let q0 = Values_Set (Query (URL req)) ''q'' query';
          q1 = (if limit \<noteq> 0 then Values_Set q0 ''limit'' (Itoa limit) else q0);
          q2 = (if offset \<noteq> 0 then Values_Set q1 ''offset'' (Itoa offset) else q1);
          q3 = (if length fields' \<noteq> 0 then Values_Set q2 ''fields'' (Join fields' '','') else q2)
      in req\<lparr>URL := (URL req)\<lparr>RawQuery := Values_Encode q3\<rparr>\<rparr>)"

definition List ::
  "(string \<Rightarrow> string \<Rightarrow> error + http_Request)
     \<Rightarrow> (http_Request \<Rightarrow> (PagedResponse option \<times> error) + (PagedResponse \<times> 'a animeList))
     \<Rightarrow> string \<Rightarrow> int \<Rightarrow> int \<Rightarrow> string list
     \<Rightarrow> 'a list option \<times> PagedResponse option \<times> error option"
where
  "List newRequest do query' limit offset fields' =
     (case newRequest ''GET'' ''anime'' of
        Inl err \<Rightarrow> (None, None, Some err)
      | Inr req \<Rightarrow>
          (case do (List_request req query' limit offset fields') of
             Inl (resp, err) \<Rightarrow> (None, resp, Some err)
           | Inr (resp, list) \<Rightarrow>
               (case (if Previous (Paging list) \<noteq> []
                      then (case parseOffset (Previous (Paging list)) of
                              Inl err \<Rightarrow> Inl (Errorf ''previous: %s'' [] (Some err))
                            | Inr offset \<Rightarrow> Inr (resp\<lparr>PrevOffset := offset\<rparr>))
                      else Inr resp) of
                  Inl err \<Rightarrow> (None, Some resp, Some err)
                | Inr resp1 \<Rightarrow>
                    (case (if Next (Paging list) \<noteq> []
                           then (case parseOffset (Next (Paging list)) of
                                   Inl err \<Rightarrow> Inl (Errorf ''next: %s'' [] (Some err))
                                 | Inr offset \<Rightarrow> Inr (resp1\<lparr>NextOffset := offset\<rparr>))
                           else Inr resp1) of
                       Inl err \<Rightarrow> (None, Some resp1, Some err)
                     | Inr resp2 \<Rightarrow> (Some (map Anime (Data list)), Some resp2, None)))))"

section \<open>Stub servers and sample values\<close>

text \<open>
  The tests of the repository run the client against a stub server. \<open>stubServer\<close>
  answers every request with the given status code and body, and \<open>testClient\<close> is
  the client that the tests set up.
\<close>

definition stubServer :: "int \<Rightarrow> string \<Rightarrow> http_Request \<Rightarrow> error + http_Response" where
  "stubServer code body req = Inr \<lparr>StatusCode = code, Request = req, RespBody = Inr body\<rparr>"

definition testClient :: "(http_Request \<Rightarrow> error + http_Response) \<Rightarrow> Client" where
  "testClient server =
     SetUserAgent (SetCredentials (NewClient server) ''TestUser'' ''TestPass'') ''TestAgent''"

text \<open>
  The anime service of a client, with the endpoints of the legacy constants. The
  request that \<open>Delete 55\<close> builds for the test client is \<open>signed delete55\<close>: the
  headers are the user agent and the Basic credentials of \<open>TestUser:TestPass\<close>.
\<close>

definition endpoint :: "string \<Rightarrow> URL" where
  "endpoint rawURL = (case Parse rawURL of Inl err \<Rightarrow> emptyURL | Inr u \<Rightarrow> u)"

definition testAnime :: "Client \<Rightarrow> AnimeService" where
  "testAnime c =
     \<lparr>client' = c, AddEndpoint = endpoint addAnimeURL, UpdateEndpoint = endpoint updateAnimeURL,
      DeleteEndpoint = endpoint deleteAnimeURL, SearchEndpoint = emptyURL,
      ListEndpoint = emptyURL\<rparr>"

definition delete55 :: http_Request where
  "delete55 =
     \<lparr>Method = ''DELETE'',
      URL = emptyURL\<lparr>Scheme := ''http'', Host := ''myanimelist.net'',
                      Path := ''/api/animelist/delete/55.xml''\<rparr>,
      Header = [], ReqBody = []\<rparr>"

definition signed :: "http_Request \<Rightarrow> http_Request" where
  "signed r =
     r\<lparr>Header := [(''User-Agent'', [''TestAgent'']),
                   (''Authorization'', [''Basic VGVzdFVzZXI6VGVzdFBhc3M=''])] @ Header r\<rparr>"

text \<open>
  The zero values of \<open>Status\<close> and \<open>AnimeEntry\<close>, and the entry
  \<open>AnimeEntry{Status: Status{Watching: "watching"}}\<close>, whose only set field is the
  status \<open>watching\<close>; \<open>watchingXML\<close> is the XML of that entry.
\<close>

definition zeroStatus :: Status where
  "zeroStatus = \<lparr>Watching = [], Completed = [], OnHold = [], Dropped = [], PlanToWatch = []\<rparr>"

definition zeroEntry :: AnimeEntry where
  "zeroEntry =
     \<lparr>Episode = 0, Status = zeroStatus, Score = 0, DownloadedEpisodes = 0, StorageType = 0,
      StorageValue = 0, TimesRewatched = 0, RewatchValue = 0, DateStart = [], DateFinish = [],
      Priority = 0, EnableDiscussion = 0, EnableRewatching = 0, Comments = [],
      FansubGroup = [], Tags = []\<rparr>"

definition watching :: AnimeEntry where
  "watching = zeroEntry\<lparr>Status := zeroStatus\<lparr>Watching := ''watching''\<rparr>\<rparr>"

definition watchingXML :: string where
  "watchingXML =
     ''<entry><episode>0</episode>''
     @ ''<status><Watching>watching</Watching><Completed></Completed><OnHold></OnHold>''
     @ ''<Dropped></Dropped><PlanToWatch></PlanToWatch></status>''
     @ ''<score>0</score><times_rewatched>0</times_rewatched>''
     @ ''<enable_rewatching>0</enable_rewatching><comments></comments></entry>''"

text \<open>
  The request that \<open>Add 55\<close> builds for the test client and an entry whose XML is
  \<open>data\<close> is \<open>signed (add55 data)\<close>.
\<close>

definition add55 :: "string \<Rightarrow> http_Request" where
  "add55 data =
     \<lparr>Method = ''POST'',
      URL = emptyURL\<lparr>Scheme := ''http'', Host := ''myanimelist.net'',
                      Path := ''/api/animelist/add/55.xml''\<rparr>,
      Header = [(''Content-Type'', [''application/x-www-form-urlencoded''])],
      ReqBody = ''data='' @ QueryEscape data\<rparr>"

text \<open>
  For \<open>List\<close>: a request builder that resolves the path against the base of the
  current API, and a \<open>Do\<close> that answers every request with status 200 and the given
  decoded envelope. \<open>page\<close> is an envelope with two nodes and the given paging URLs.
\<close>

definition stubNewRequest :: "string \<Rightarrow> string \<Rightarrow> error + http_Request" where
  "stubNewRequest method path = http_NewRequest method (''https://api.myanimelist.net/v2/'' @ path) []"

definition stubDo ::
  "'a animeList \<Rightarrow> http_Request \<Rightarrow> (PagedResponse option \<times> error) + (PagedResponse \<times> 'a animeList)"
where
  "stubDo envelope req =
     Inr (\<lparr>Response = \<lparr>StatusCode = 200, Request = req, RespBody = Inr []\<rparr>, Body = [],
           NextOffset = 0, PrevOffset = 0\<rparr>, envelope)"

definition page :: "string \<Rightarrow> string \<Rightarrow> string animeList" where
  "page prev nxt =
     \<lparr>Data = [\<lparr>Anime = ''Hokuto no Ken''\<rparr>, \<lparr>Anime = ''Hokuto no Ken 2''\<rparr>],
      Paging = \<lparr>Next = nxt, Previous = prev\<rparr>\<rparr>"

section \<open>Decimal numerals\<close>

text \<open>
  What the claims call a numeric parameter: an optional sign followed by one or more
  decimal digits, and the integer it denotes. These definitions follow the wording of
  the specification; the program's own parser is \<open>Atoi\<close> above.
\<close>

definition unsigned_part :: "string \<Rightarrow> string" where
  "unsigned_part s = (if s \<noteq> [] \<and> (hd s = CHR ''+'' \<or> hd s = CHR ''-'') then tl s else s)"

definition is_numeric :: "string \<Rightarrow> bool" where
  "is_numeric s = (unsigned_part s \<noteq> [] \<and> list_all isDigit (unsigned_part s))"

fun decimal :: "nat \<Rightarrow> string \<Rightarrow> nat" where
  "decimal n [] = n"
| "decimal n (c # cs) = decimal (n * 10 + digitVal c) cs"

definition numeric_value :: "string \<Rightarrow> int" where
  "numeric_value s =
     (if s \<noteq> [] \<and> hd s = CHR ''-'' then - int (decimal 0 (unsigned_part s))
      else int (decimal 0 (unsigned_part s)))"

definition fits_int :: "int \<Rightarrow> bool" where
  "fits_int n = (- (2 ^ 63) \<le> n \<and> n < 2 ^ 63)"

section \<open>Properties\<close>

lemma HasPrefix_iff: "HasPrefix s p \<longleftrightarrow> (\<exists>t. s = p @ t)"
  by (induction s p rule: HasPrefix.induct) auto

lemma Index_ge: "- 1 \<le> Index s sep"
  by (induction s) (auto simp: Let_def)

lemma Index_neg_iff: "Index s sep < 0 \<longleftrightarrow> Index s sep = - 1"
  using Index_ge [of s sep] by auto

lemma Index_occurs:
  "0 \<le> Index s sep \<longleftrightarrow> (\<exists>xs ys. s = xs @ sep @ ys)"
proof (induction s)
  case Nil
  then show ?case by auto
next
  case (Cons c cs)
  show ?case
  proof (cases "HasPrefix (c # cs) sep")
    case True
    then obtain t where "c # cs = sep @ t" by (auto simp: HasPrefix_iff)
    then have "c # cs = [] @ sep @ t" by simp
    with True show ?thesis by (metis Index.simps(2) order_refl)
  next
    case False
    have "(\<exists>xs ys. c # cs = xs @ sep @ ys) \<longleftrightarrow> (\<exists>xs ys. cs = xs @ sep @ ys)"
    proof
      assume "\<exists>xs ys. c # cs = xs @ sep @ ys"
      then obtain xs ys where e: "c # cs = xs @ sep @ ys" by blast
      show "\<exists>xs ys. cs = xs @ sep @ ys"
      proof (cases xs)
        case Nil
        with e False show ?thesis by (auto simp: HasPrefix_iff)
      next
        case (Cons x xs')
        with e show ?thesis by auto
      qed
    next
      assume "\<exists>xs ys. cs = xs @ sep @ ys"
      then obtain xs ys where "cs = xs @ sep @ ys" by blast
      then have "c # cs = (c # xs) @ sep @ ys" by simp
      then show "\<exists>xs ys. c # cs = xs @ sep @ ys" by blast
    qed
    with False Cons Index_ge [of cs sep] show ?thesis
      by (auto simp: Let_def)
  qed
qed

lemma Index_first:
  assumes "old \<noteq> []" and "\<not> (\<exists>us vs. xs @ butlast old = us @ old @ vs)"
  shows "Index (xs @ old @ ys) old = int (length xs)"
  using assms(2)
proof (induction xs)
  case Nil
  show ?case
  proof (cases "old @ ys")
    case Nil
    with assms(1) show ?thesis by simp
  next
    case (Cons c cs)
    then have "HasPrefix (c # cs) old" by (metis HasPrefix_iff)
    with Cons show ?thesis by simp
  qed
next
  case (Cons x xs)
  have no: "\<not> HasPrefix (x # xs @ old @ ys) old"
  proof
    assume "HasPrefix (x # xs @ old @ ys) old"
    then obtain t where t: "x # xs @ old @ ys = old @ t" by (auto simp: HasPrefix_iff)
    define A where "A = (x # xs) @ butlast old"
    have len: "length old \<le> length A" by (simp add: A_def)
    have split: "(x # xs) @ old @ ys = A @ (last old # ys)"
      using assms(1) by (simp add: A_def)
    have e: "A @ (last old # ys) = old @ t"
      using t split by simp
    have "take (length old) A = take (length old) (A @ (last old # ys))"
      using len by simp
    also have "\<dots> = old" unfolding e by simp
    finally have "A = [] @ old @ drop (length old) A"
      by (metis append_Nil append_take_drop_id)
    then have "\<exists>us vs. (x # xs) @ butlast old = us @ old @ vs"
      unfolding A_def by blast
    with Cons.prems show False by blast
  qed
  have "\<not> (\<exists>us vs. xs @ butlast old = us @ old @ vs)"
  proof
    assume "\<exists>us vs. xs @ butlast old = us @ old @ vs"
    then obtain us vs where "xs @ butlast old = us @ old @ vs" by blast
    then have "(x # xs) @ butlast old = (x # us) @ old @ vs" by simp
    with Cons.prems show False by blast
  qed
  from Cons.IH [OF this] no show ?case by (simp add: Let_def)
qed


lemma Index_split:
  "0 \<le> Index s sep \<Longrightarrow>
     s = take (nat (Index s sep)) s @ sep @ drop (nat (Index s sep) + length sep) s"
proof (induction s)
  case Nil
  then show ?case by (auto split: if_splits)
next
  case (Cons c cs)
  show ?case
  proof (cases "HasPrefix (c # cs) sep")
    case True
    then show ?thesis by (auto simp: HasPrefix_iff)
  next
    case False
    with Cons.prems have nn: "0 \<le> Index cs sep"
      by (auto simp: Let_def split: if_splits)
    with False have "Index (c # cs) sep = Index cs sep + 1" by (simp add: Let_def)
    moreover have "nat (Index cs sep + 1) = Suc (nat (Index cs sep))" using nn by simp
    ultimately show ?thesis using Cons.IH [OF nn] by simp
  qed
qed

lemma Replace_absent:
  assumes "\<not> (\<exists>xs ys. s = xs @ old @ ys)"
  shows "Replace s old new n = s"
proof -
  from assms have "Index s old = - 1"
    using Index_occurs [of s old] Index_neg_iff [of s old] by auto
  then have "Count s old = 0" by simp
  then show ?thesis by (simp add: Replace_def)
qed

lemma Replace_first:
  assumes "old \<noteq> []" and "0 \<le> Index s old"
  shows "Replace s old new (- 1) =
         take (nat (Index s old)) s @ new @
         Replace (drop (nat (Index s old) + length old) s) old new (- 1)"
proof -
  let ?rest = "drop (nat (Index s old) + length old) s"
  from assms have c: "Count s old = Suc (Count ?rest old)"
    by (subst Count.simps) (auto simp: Let_def)
  have "replace_loop (Count ?rest old) ?rest old new = Replace ?rest old new (- 1)"
    by (cases "Count ?rest old") (auto simp: Replace_def)
  then show ?thesis
    using c by (simp add: Replace_def Let_def)
qed

subsection \<open>The rewrite of the bullet entity\<close>

text \<open>
  Claim C2, as amended. The rewrite is scoped: a body with no occurrence of
  \<open>&bull;\<close> is returned unchanged, byte for byte, so on such a body applying the
  rewrite twice equals applying it once; and in a body \<open>xs @ &bull; @ ys\<close> whose first
  occurrence is the one shown, the bytes \<open>xs\<close> before it are kept, the occurrence
  becomes the CDATA section, and the rest \<open>ys\<close> is rewritten in the same way.
  Idempotence on bodies that contain \<open>&bull;\<close> is not part of the statement: the
  replacement text contains \<open>&bull;\<close> itself.
\<close>

theorem bull_rewrite_scoped:
  "(\<not> (\<exists>xs ys. b = xs @ ''&bull;'' @ ys) \<longrightarrow>
      bull_rewrite b = b \<and> bull_rewrite (bull_rewrite b) = bull_rewrite b)
   \<and> (\<not> (\<exists>us vs. xs @ ''&bull'' = us @ ''&bull;'' @ vs) \<longrightarrow>
      bull_rewrite (xs @ ''&bull;'' @ ys) = xs @ ''<![CDATA[&bull;]]>'' @ bull_rewrite ys)"
proof (intro conjI impI)
  assume absent: "\<not> (\<exists>xs ys. b = xs @ ''&bull;'' @ ys)"
  then show "bull_rewrite b = b" by (rule Replace_absent)
  then show "bull_rewrite (bull_rewrite b) = bull_rewrite b" by simp
next
  assume "\<not> (\<exists>us vs. xs @ ''&bull'' = us @ ''&bull;'' @ vs)"
  then have "\<not> (\<exists>us vs. xs @ butlast ''&bull;'' = us @ ''&bull;'' @ vs)" by simp
  then have i: "Index (xs @ ''&bull;'' @ ys) ''&bull;'' = int (length xs)"
    by (intro Index_first) simp_all
  have "bull_rewrite (xs @ ''&bull;'' @ ys) =
        take (nat (Index (xs @ ''&bull;'' @ ys) ''&bull;'')) (xs @ ''&bull;'' @ ys)
        @ ''<![CDATA[&bull;]]>''
        @ bull_rewrite (drop (nat (Index (xs @ ''&bull;'' @ ys) ''&bull;'') + length ''&bull;'')
                          (xs @ ''&bull;'' @ ys))"
    by (rule Replace_first) (simp, simp only: i of_nat_0_le_iff)
  then show "bull_rewrite (xs @ ''&bull;'' @ ys) = xs @ ''<![CDATA[&bull;]]>'' @ bull_rewrite ys"
    unfolding i by simp
qed

text \<open>
  The theorem at the bodies \<open><a>x</a>\<close> and \<open>A&bull;B\<close>.
\<close>

theorem bull_rewrite_scoped_witness:
  "bull_rewrite ''<a>x</a>'' = ''<a>x</a>''
   \<and> bull_rewrite ''A&bull;B'' = ''A<![CDATA[&bull;]]>B''"
proof -
  have a: "\<not> (\<exists>xs ys. ''<a>x</a>'' = xs @ ''&bull;'' @ ys)"
    unfolding Index_occurs [symmetric] by simp
  have b: "\<not> (\<exists>us vs. ''A'' @ ''&bull'' = us @ ''&bull;'' @ vs)"
    unfolding Index_occurs [symmetric] by simp
  have c: "\<not> (\<exists>xs ys. ''B'' = xs @ ''&bull;'' @ ys)"
    unfolding Index_occurs [symmetric] by simp
  from a b c bull_rewrite_scoped [of "''<a>x</a>''" "''A''" "''B''"]
    bull_rewrite_scoped [of "''B''" "[]" "[]"]
  show ?thesis by simp
qed

text \<open>
  Claim C2 as stated fails: on the body \<open>&bull;\<close> a second application wraps the
  entity once more, giving \<open><![CDATA[<![CDATA[&bull;]]>]]>\<close>.
\<close>

theorem bull_rewrite_twice_counterexample:
  "bull_rewrite (bull_rewrite ''&bull;'') \<noteq> bull_rewrite ''&bull;''"
  by (simp add: Replace_def Let_def)

subsection \<open>Evaluating the sample requests\<close>

lemma canonical_keys:
  "CanonicalMIMEHeaderKey ''User-Agent'' = ''User-Agent''"
  "CanonicalMIMEHeaderKey ''Authorization'' = ''Authorization''"
  "CanonicalMIMEHeaderKey ''Content-Type'' = ''Content-Type''"
  by code_simp+


lemma testClient_fields:
  "client (testClient server) = server"
  "Username (testClient server) = ''TestUser''"
  "Password (testClient server) = ''TestPass''"
  "UserAgent (testClient server) = ''TestAgent''"
  by (simp_all add: testClient_def SetUserAgent_def SetCredentials_def NewClient_def)

lemma basicAuth_test: "basicAuth ''TestUser'' ''TestPass'' = ''VGVzdFVzZXI6VGVzdFBhc3M=''"
  by code_simp

text \<open>
  \<open>post\<close> uses the marshaller on the entry only. For the test client and id 55 it
  sends \<open>signed (add55 data)\<close> to the add endpoint, where \<open>data\<close> is the XML of the
  entry. \<open>Marshal_AnimeEntry\<close> returns the XML of every entry.
\<close>

lemma post_marshalled:
  "marshal e = Inr data \<Longrightarrow> post marshal c u i e = post (\<lambda>b. Inr data) c u i e"
  by (simp add: post_def NewRequest_def split: sum.splits)

lemma post_add_200:
  "post (\<lambda>b. Inr data) (testClient (stubServer 200 ''Created''))
        (URL_String (endpoint addAnimeURL)) 55 e =
     (Some \<lparr>Response = \<lparr>StatusCode = 200, Request = signed (add55 data),
                          RespBody = Inr ''Created''\<rparr>,
            Body = ''Created''\<rparr>, None)"
  apply code_simp
  apply simp
  done

lemma post_add_404:
  "post (\<lambda>b. Inr data) (testClient (stubServer 404 ''Not Found''))
        (URL_String (endpoint addAnimeURL)) 55 e =
     (None,
      Some (ErrorString ''POST http://myanimelist.net/api/animelist/add/55.xml: 404 Not Found''))"
  by code_simp

lemma post_update_404:
  "post (\<lambda>b. Inr data) (testClient (stubServer 404 ''Not Found''))
        (URL_String (endpoint updateAnimeURL)) 55 e =
     (None,
      Some (ErrorString
        ''POST http://myanimelist.net/api/animelist/update/55.xml: 404 Not Found''))"
  by code_simp

lemma Marshal_AnimeEntry_returns: "\<exists>data. Marshal_AnimeEntry FormatFloat e = Inr data"
  by (simp add: Marshal_AnimeEntry_def)

subsection \<open>The response reader\<close>



subsection \<open>Decoding is skipped for a nil target\<close>

text \<open>
  Claim C10. When the transport returns a response with a status code in
  \<open>[200, 299]\<close> and body bytes \<open>data\<close>, \<open>Do\<close> with a \<open>nil\<close> target returns the
  \<open>Response\<close> and a \<open>nil\<close> error, whatever \<open>data\<close> is: nothing is decoded.
\<close>

theorem Do_nil_target:
  assumes "client c req = Inr r" and "RespBody r = Inr data"
    and "200 \<le> StatusCode r" and "StatusCode r \<le> 299"
  shows "Do c req None = (Some \<lparr>Response = r, Body = data\<rparr>, None, None)"
  using assms by (simp add: Do_def readResponse_def Let_def)

text \<open>
  The theorem at a body that is not XML.
\<close>

theorem Do_nil_target_witness:
  "Do (testClient (stubServer 200 ''Deleted, not <xml'')) delete55 nil_target =
     (Some \<lparr>Response = \<lparr>StatusCode = 200, Request = delete55,
                          RespBody = Inr ''Deleted, not <xml''\<rparr>,
            Body = ''Deleted, not <xml''\<rparr>, None, None)"
proof -
  have "client (testClient (stubServer 200 ''Deleted, not <xml'')) delete55 =
        Inr \<lparr>StatusCode = 200, Request = delete55, RespBody = Inr ''Deleted, not <xml''\<rparr>"
    by (simp add: testClient_fields stubServer_def)
  from Do_nil_target [OF this, of "''Deleted, not <xml''"]
  show ?thesis by (simp add: nil_target_def)
qed

text \<open>
  With a target, \<open>Do\<close> hands the rewritten body to the decoder and returns the
  \<open>Response\<close> in both cases: with the decoded value, or with the decoder's error
  wrapped in \<open>cannot decode\<close>.
\<close>

lemma Do_decodes_rewritten:
  assumes "client c req = Inr r" and "RespBody r = Inr data"
    and "200 \<le> StatusCode r" and "StatusCode r \<le> 299"
  shows "Do c req (Some unmarshal) =
           (case unmarshal (bull_rewrite data) of
              Inl err \<Rightarrow>
                (Some \<lparr>Response = r, Body = data\<rparr>,
                 Some (Errorf ''cannot decode: %v'' [] (Some err)), None)
            | Inr x \<Rightarrow> (Some \<lparr>Response = r, Body = data\<rparr>, None, Some x))"
  using assms by (simp add: Do_def readResponse_def Let_def split: sum.splits)

subsection \<open>The headers of a request\<close>

text \<open>
  Claim C9. A request built by \<open>NewRequest\<close> has an \<open>Authorization\<close> header exactly
  when the client's \<open>Username\<close> is not empty, whatever the \<open>Password\<close> is, and the
  header is then the Basic credentials of \<open>Username\<close> and \<open>Password\<close>; it has a
  \<open>User-Agent\<close> header exactly when the client's \<open>UserAgent\<close> is not empty, and the
  header is then that string.
\<close>

theorem NewRequest_headers:
  assumes "NewRequest marshal c method urlStr body = Inr req"
  shows "(map_of (Header req) ''Authorization'' \<noteq> None \<longleftrightarrow> Username c \<noteq> [])
         \<and> (Username c \<noteq> [] \<longrightarrow>
              map_of (Header req) ''Authorization''
                = Some [''Basic '' @ basicAuth (Username c) (Password c)])
         \<and> (map_of (Header req) ''User-Agent'' \<noteq> None \<longleftrightarrow> UserAgent c \<noteq> [])
         \<and> (UserAgent c \<noteq> [] \<longrightarrow> map_of (Header req) ''User-Agent'' = Some [UserAgent c])"
  using assms
  by (auto simp: NewRequest_def http_NewRequest_def Let_def SetBasicAuth_def Header_Add_def
        Header_Set_def Values_Add_def Values_Set_def Values_lookup_def canonical_keys
      split: sum.splits option.splits if_splits)

text \<open>
  The theorem at the test client, and at a client with a password but neither a user
  name nor a user agent.
\<close>

theorem NewRequest_headers_witness:
  "(\<exists>req. NewRequest (\<lambda>b. Inr []) (testClient (stubServer 200 [])) ''DELETE''
             (deleteAnimeURL @ Itoa 55 @ ''.xml'') no_body = Inr req
          \<and> map_of (Header req) ''Authorization'' = Some [''Basic VGVzdFVzZXI6VGVzdFBhc3M='']
          \<and> map_of (Header req) ''User-Agent'' = Some [''TestAgent''])
   \<and> (\<exists>req. NewRequest (\<lambda>b. Inr [])
             (SetUserAgent (SetCredentials (NewClient (stubServer 200 [])) [] ''TestPass'') [])
             ''DELETE'' (deleteAnimeURL @ Itoa 55 @ ''.xml'') no_body = Inr req
          \<and> map_of (Header req) ''Authorization'' = None
          \<and> map_of (Header req) ''User-Agent'' = None)"
proof -
  let ?anon = "SetUserAgent (SetCredentials (NewClient (stubServer 200 [])) [] ''TestPass'') []"
  have a: "NewRequest (\<lambda>b. Inr []) (testClient (stubServer 200 [])) ''DELETE''
             (deleteAnimeURL @ Itoa 55 @ ''.xml'') no_body = Inr (signed delete55)"
    by code_simp
  have b: "NewRequest (\<lambda>b. Inr []) ?anon ''DELETE''
             (deleteAnimeURL @ Itoa 55 @ ''.xml'') no_body = Inr delete55"
    by code_simp
  have f: "Username ?anon = []" "UserAgent ?anon = []"
    by (simp_all add: SetUserAgent_def SetCredentials_def NewClient_def)
  from NewRequest_headers [OF a]
  have "map_of (Header (signed delete55)) ''Authorization''
          = Some [''Basic VGVzdFVzZXI6VGVzdFBhc3M='']
        \<and> map_of (Header (signed delete55)) ''User-Agent'' = Some [''TestAgent'']"
    by (simp add: testClient_fields basicAuth_test)
  moreover from NewRequest_headers [OF b]
  have "map_of (Header delete55) ''Authorization'' = None
        \<and> map_of (Header delete55) ''User-Agent'' = None"
    by (simp add: f)
  ultimately show ?thesis using a b by blast
qed

subsection \<open>The response on an error\<close>

text \<open>
  \<open>query\<close> returns what \<open>Do\<close> returns, the \<open>Response\<close> included. \<open>post\<close> and
  \<open>delete\<close> never return a \<open>Response\<close> together with an error.
\<close>

lemma delete_error_nil: "snd (delete c e i) \<noteq> None \<Longrightarrow> fst (delete c e i) = None"
  by (auto simp: delete_def split: sum.splits prod.splits option.splits)

lemma post_error_nil: "snd (post m c e i x) \<noteq> None \<Longrightarrow> fst (post m c e i x) = None"
  by (auto simp: post_def Let_def split: sum.splits prod.splits option.splits)

lemma query_passes_Do:
  "NewRequest (\<lambda>b. Inr []) c ''GET'' url no_body = Inr req \<Longrightarrow> query c url v = Do c req v"
  by (auto simp: query_def split: sum.splits prod.splits option.splits)

text \<open>
  Claim C4 fails on the code for \<open>post\<close> and \<open>delete\<close>, and so for \<open>Add\<close>,
  \<open>Update\<close> and \<open>Delete\<close>. Against a server that answers 404, \<open>Do\<close> returns the
  populated \<open>Response\<close> with the error, and \<open>query\<close> passes both on; \<open>Delete\<close>,
  and \<open>Add\<close> and \<open>Update\<close> for every entry, return a \<open>nil\<close> response with the same
  error.
\<close>

theorem Delete_drops_response:
  "Do (testClient (stubServer 404 ''Not Found'')) (signed delete55) nil_target =
     (Some \<lparr>Response = \<lparr>StatusCode = 404, Request = signed delete55,
                          RespBody = Inr ''Not Found''\<rparr>,
            Body = ''Not Found''\<rparr>,
      Some (ErrorString
        ''DELETE http://myanimelist.net/api/animelist/delete/55.xml: 404 Not Found''),
      None)
   \<and> query (testClient (stubServer 404 ''Not Found'')) (deleteAnimeURL @ ''55.xml'') nil_target =
     (Some \<lparr>Response = \<lparr>StatusCode = 404, Request = signed (delete55\<lparr>Method := ''GET''\<rparr>),
                          RespBody = Inr ''Not Found''\<rparr>,
            Body = ''Not Found''\<rparr>,
      Some (ErrorString
        ''GET http://myanimelist.net/api/animelist/delete/55.xml: 404 Not Found''),
      None)
   \<and> Delete (testAnime (testClient (stubServer 404 ''Not Found''))) 55 =
     (None,
      Some (ErrorString
        ''DELETE http://myanimelist.net/api/animelist/delete/55.xml: 404 Not Found''))
   \<and> Add FormatFloat (testAnime (testClient (stubServer 404 ''Not Found''))) 55 entry =
     (None,
      Some (ErrorString
        ''POST http://myanimelist.net/api/animelist/add/55.xml: 404 Not Found''))
   \<and> Update FormatFloat (testAnime (testClient (stubServer 404 ''Not Found''))) 55 entry =
     (None,
      Some (ErrorString
        ''POST http://myanimelist.net/api/animelist/update/55.xml: 404 Not Found''))"
proof -
  obtain data where m: "Marshal_AnimeEntry FormatFloat entry = Inr data"
    using Marshal_AnimeEntry_returns by blast
  have "Add FormatFloat (testAnime (testClient (stubServer 404 ''Not Found''))) 55 entry =
     (None,
      Some (ErrorString
        ''POST http://myanimelist.net/api/animelist/add/55.xml: 404 Not Found''))"
    by (simp add: Add_def testAnime_def post_add_404
          post_marshalled [of "Marshal_AnimeEntry FormatFloat" entry data, OF m])
  moreover
  have "Update FormatFloat (testAnime (testClient (stubServer 404 ''Not Found''))) 55 entry =
     (None,
      Some (ErrorString
        ''POST http://myanimelist.net/api/animelist/update/55.xml: 404 Not Found''))"
    by (simp add: Update_def testAnime_def post_update_404
          post_marshalled [of "Marshal_AnimeEntry FormatFloat" entry data, OF m])
  moreover
  have "Do (testClient (stubServer 404 ''Not Found'')) (signed delete55) nil_target =
     (Some \<lparr>Response = \<lparr>StatusCode = 404, Request = signed delete55,
                          RespBody = Inr ''Not Found''\<rparr>,
            Body = ''Not Found''\<rparr>,
      Some (ErrorString
        ''DELETE http://myanimelist.net/api/animelist/delete/55.xml: 404 Not Found''),
      None)
   \<and> query (testClient (stubServer 404 ''Not Found'')) (deleteAnimeURL @ ''55.xml'') nil_target =
     (Some \<lparr>Response = \<lparr>StatusCode = 404, Request = signed (delete55\<lparr>Method := ''GET''\<rparr>),
                          RespBody = Inr ''Not Found''\<rparr>,
            Body = ''Not Found''\<rparr>,
      Some (ErrorString
        ''GET http://myanimelist.net/api/animelist/delete/55.xml: 404 Not Found''),
      None)
   \<and> Delete (testAnime (testClient (stubServer 404 ''Not Found''))) 55 =
     (None,
      Some (ErrorString
        ''DELETE http://myanimelist.net/api/animelist/delete/55.xml: 404 Not Found''))"
    by code_simp
  ultimately show ?thesis by simp
qed

subsection \<open>The endpoint of a delete\<close>

text \<open>
  Claim C5 fails on the code for the manga list: \<open>deleteMangaURL\<close> is the anime
  endpoint. The request that \<open>delete\<close> sends for \<open>deleteMangaURL\<close> and id 55, which
  the stub server hands back in its response, has method \<open>DELETE\<close> and goes to
  \<open>/api/animelist/delete/55.xml\<close> on \<open>myanimelist.net\<close>; it is the request of an anime
  delete.
\<close>

theorem manga_delete_request:
  "delete (testClient (stubServer 200 ''Deleted'')) deleteMangaURL 55 =
     (Some \<lparr>Response = \<lparr>StatusCode = 200, Request = signed delete55,
                          RespBody = Inr ''Deleted''\<rparr>,
            Body = ''Deleted''\<rparr>, None)
   \<and> Method (signed delete55) = ''DELETE''
   \<and> Host (URL (signed delete55)) = ''myanimelist.net''
   \<and> Path (URL (signed delete55)) = ''/api/animelist/delete/55.xml''
   \<and> delete c deleteMangaURL n = delete c deleteAnimeURL n"
proof -
  have "delete c deleteMangaURL n = delete c deleteAnimeURL n"
    by (simp add: deleteMangaURL_def deleteAnimeURL_def)
  moreover have
    "delete (testClient (stubServer 200 ''Deleted'')) deleteMangaURL 55 =
       (Some \<lparr>Response = \<lparr>StatusCode = 200, Request = signed delete55,
                            RespBody = Inr ''Deleted''\<rparr>,
              Body = ''Deleted''\<rparr>, None)
     \<and> Method (signed delete55) = ''DELETE''
     \<and> Host (URL (signed delete55)) = ''myanimelist.net''
     \<and> Path (URL (signed delete55)) = ''/api/animelist/delete/55.xml''"
    by code_simp
  ultimately show ?thesis by simp
qed

subsection \<open>The body of an add\<close>

text \<open>
  \<open>QueryUnescape\<close> undoes \<open>QueryEscape\<close>, and an escaped string has none of the
  separators of a query. So \<open>ParseQuery\<close> reads the form body \<open>data=\<close> followed by the
  escaped XML as the one field \<open>data\<close>, whose value is the XML.
\<close>

lemma upperhex_hex:
  assumes "n < 16"
  shows "ishex (upperhex n)" and "unhex (upperhex n) = n"
proof -
  from assms have "n \<in> {0, 1, 2, 3, 4, 5, 6, 7, 8, 9, 10, 11, 12, 13, 14, 15}" by (auto, arith)
  then show "ishex (upperhex n)" and "unhex (upperhex n) = n"
    by (auto simp: upperhex_def ishex_def unhex_def less_eq_char_def)
qed

lemma char_of_nibbles: "char_of (of_char c div 16 * 16 + of_char c mod 16 :: nat) = c"
  by simp

lemma nibble_bounds: "(of_char c :: nat) div 16 < 16" "(of_char c :: nat) mod 16 < 16"
proof -
  have "(of_char c :: nat) < 256" by simp
  then show "(of_char c :: nat) div 16 < 16" by (simp add: less_mult_imp_div_less)
  show "(of_char c :: nat) mod 16 < 16" by simp
qed

lemma shouldEscape_percent_plus:
  "\<not> shouldEscape c encodeQueryComponent \<Longrightarrow> c \<noteq> CHR ''%'' \<and> c \<noteq> CHR ''+''"
  by (auto simp: shouldEscape_def isAlpha_def isDigit_def less_eq_char_def)

lemma escape_Cons:
  "escape (c # s) encodeQueryComponent =
     (if shouldEscape c encodeQueryComponent then
        (if c = CHR '' '' then ''+''
         else [CHR ''%'', upperhex (of_char c div 16), upperhex (of_char c mod 16)])
      else [c]) @ escape s encodeQueryComponent"
  by (simp add: escape_def)

lemma unescape_check_escape:
  "unescape_check encodeQueryComponent (escape s encodeQueryComponent) = None"
proof (induction s)
  case Nil
  show ?case by (simp add: escape_def)
next
  case (Cons c s)
  show ?case
    using Cons shouldEscape_percent_plus [of c] upperhex_hex(1) [OF nibble_bounds(1), of c]
      upperhex_hex(1) [OF nibble_bounds(2), of c]
    by (simp add: escape_Cons)
qed

lemma unescape_decode_escape:
  "unescape_decode encodeQueryComponent (escape s encodeQueryComponent) = s"
proof (induction s)
  case Nil
  show ?case by (simp add: escape_def)
next
  case (Cons c s)
  show ?case
    using Cons shouldEscape_percent_plus [of c] upperhex_hex(2) [OF nibble_bounds(1), of c]
      upperhex_hex(2) [OF nibble_bounds(2), of c] char_of_nibbles [of c]
    by (simp add: escape_Cons)
qed

lemma QueryUnescape_QueryEscape: "QueryUnescape (QueryEscape s) = Inr s"
  by (simp add: QueryUnescape_def QueryEscape_def unescape_def unescape_check_escape
        unescape_decode_escape)

lemma upperhex_not_separator:
  assumes "n < 16"
  shows "upperhex n \<notin> {CHR ''&'', CHR '';'', CHR ''=''}"
proof -
  from assms have "n \<in> {0, 1, 2, 3, 4, 5, 6, 7, 8, 9, 10, 11, 12, 13, 14, 15}" by (auto, arith)
  then show ?thesis by (auto simp: upperhex_def)
qed

lemma shouldEscape_separator:
  "c \<in> {CHR ''&'', CHR '';'', CHR ''=''} \<Longrightarrow> shouldEscape c encodeQueryComponent"
  by (auto simp: shouldEscape_def isAlpha_def isDigit_def less_eq_char_def)

lemma QueryEscape_no_separator:
  "c \<in> {CHR ''&'', CHR '';'', CHR ''=''} \<Longrightarrow> c \<notin> set (QueryEscape s)"
proof (induction s)
  case Nil
  show ?case by (simp add: QueryEscape_def escape_def)
next
  case (Cons x s)
  show ?case
    using Cons shouldEscape_separator [of x] upperhex_not_separator [OF nibble_bounds(1), of x]
      upperhex_not_separator [OF nibble_bounds(2), of x]
    by (auto simp: QueryEscape_def escape_Cons)
qed

lemma Split_absent: "c \<notin> set s \<Longrightarrow> Split s c = [s]"
  by (induction s) auto

lemma Index_absent: "c \<notin> set s \<Longrightarrow> Index s [c] = - 1"
  by (induction s) (auto simp: Let_def)

lemma ParseQuery_data: "ParseQuery (''data='' @ QueryEscape x) = ([(''data'', [x])], None)"
proof -
  let ?b = "''data='' @ QueryEscape x"
  have amp: "Split ?b CHR ''&'' = [?b]"
    using QueryEscape_no_separator [of "CHR ''&''" x] by (intro Split_absent) simp
  have semi: "\<not> Contains ?b '';''"
    using QueryEscape_no_separator [of "CHR '';''" x] Index_absent [of "CHR '';''" ?b]
    by (simp add: Contains_def)
  have key: "QueryUnescape ''data'' = Inr ''data''" by code_simp
  have "parseQuery_step ?b ([], None) = ([(''data'', [x])], None)"
    using semi
    by (simp add: parseQuery_step_def Cut_def key QueryUnescape_QueryEscape Values_Add_def
          Values_lookup_def)
  then show ?thesis unfolding ParseQuery_def amp by simp
qed

lemma Values_Encode_data:
  "Values_Encode (Values_Set [] ''data'' data) = ''data='' @ QueryEscape data"
proof -
  have key: "QueryEscape ''data'' = ''data''" by code_simp
  show ?thesis
    by (simp add: Values_Encode_def Values_Set_def Values_lookup_def key)
qed

lemma NewRequest_form_body:
  assumes "marshal e = Inr data"
    and "NewRequest marshal c method urlStr (Some e) = Inr req"
  shows "ReqBody req = ''data='' @ QueryEscape data"
  using assms
  by (auto simp: NewRequest_def http_NewRequest_def SetBasicAuth_def Let_def Values_Encode_data
        split: sum.splits if_splits)

text \<open>
  Claim C7 fails on the code, for every entry. The XML of an entry begins with the
  element \<open>episode\<close>, whose struct tag has no \<open>omitempty\<close>, so it is never the XML
  \<open><entry><status>watching</status></entry>\<close> of the claim. Every request that
  \<open>NewRequest\<close> builds for an entry has the form body \<open>data=\<close> followed by the escaped
  XML, which reads back as the one field \<open>data\<close> with that XML as its value. For the
  test client, \<open>Add 55\<close> sends the request \<open>signed (add55 data)\<close>, where \<open>data\<close> is the
  XML of the entry, with the content type \<open>application/x-www-form-urlencoded\<close>. For
  the entry whose only set field is the status \<open>watching\<close> the XML is \<open>watchingXML\<close>: the
  element \<open>status\<close> holds the five fields of the struct \<open>Status\<close>, and the elements
  \<open>episode\<close>, \<open>score\<close>, \<open>times_rewatched\<close>, \<open>enable_rewatching\<close> and \<open>comments\<close> are
  written with their zero values.
\<close>

theorem Add_request_data:
  "(\<exists>data. Marshal_AnimeEntry FormatFloat e = Inr data
      \<and> take 16 data = ''<entry><episode>''
      \<and> data \<noteq> ''<entry><status>watching</status></entry>''
      \<and> (NewRequest (Marshal_AnimeEntry FormatFloat) c verb urlStr (Some e) = Inr req \<longrightarrow>
           ReqBody req = ''data='' @ QueryEscape data
           \<and> ParseQuery (ReqBody req) = ([(''data'', [data])], None))
      \<and> Add FormatFloat (testAnime (testClient (stubServer 200 ''Created''))) 55 e =
          (Some \<lparr>Response = \<lparr>StatusCode = 200, Request = signed (add55 data),
                               RespBody = Inr ''Created''\<rparr>,
                 Body = ''Created''\<rparr>, None)
      \<and> Header_Get (Header (signed (add55 data))) ''Content-Type'' =
          ''application/x-www-form-urlencoded''
      \<and> ParseQuery (ReqBody (signed (add55 data))) = ([(''data'', [data])], None))
   \<and> Marshal_AnimeEntry FormatFloat watching = Inr watchingXML"
proof -
  obtain data where m: "Marshal_AnimeEntry FormatFloat e = Inr data"
    using Marshal_AnimeEntry_returns by blast
  from m have prefix: "take 16 data = ''<entry><episode>''"
    by (auto simp: Marshal_AnimeEntry_def element_def)
  then have differs: "data \<noteq> ''<entry><status>watching</status></entry>''" by auto
  have new: "NewRequest (Marshal_AnimeEntry FormatFloat) c verb urlStr (Some e) = Inr req \<longrightarrow>
           ReqBody req = ''data='' @ QueryEscape data
           \<and> ParseQuery (ReqBody req) = ([(''data'', [data])], None)"
    using NewRequest_form_body [of "Marshal_AnimeEntry FormatFloat" e data c verb urlStr req, OF m]
      ParseQuery_data [of data]
    by simp
  have add: "Add FormatFloat (testAnime (testClient (stubServer 200 ''Created''))) 55 e =
          (Some \<lparr>Response = \<lparr>StatusCode = 200, Request = signed (add55 data),
                               RespBody = Inr ''Created''\<rparr>,
                 Body = ''Created''\<rparr>, None)"
    by (simp add: Add_def testAnime_def post_add_200
          post_marshalled [of "Marshal_AnimeEntry FormatFloat" e data, OF m])
  have header: "Header_Get (Header (signed (add55 data))) ''Content-Type'' =
          ''application/x-www-form-urlencoded''"
    by (simp add: signed_def add55_def Header_Get_def canonical_keys Values_Get_def
          Values_lookup_def)
  have body: "ParseQuery (ReqBody (signed (add55 data))) = ([(''data'', [data])], None)"
    using ParseQuery_data [of data] by (simp add: signed_def add55_def)
  have "Marshal_AnimeEntry FormatFloat watching = Inr watchingXML"
    by code_simp
  with m prefix differs new add header body show ?thesis by blast
qed

theorem Add_request_data_witness:
  "NewRequest (Marshal_AnimeEntry (\<lambda>x. [])) (testClient (stubServer 200 ''Created'')) ''POST''
       (addAnimeURL @ ''55.xml'') (Some watching) =
     Inr (signed ((add55 watchingXML)\<lparr>Header := []\<rparr>))
   \<and> ReqBody (signed ((add55 watchingXML)\<lparr>Header := []\<rparr>)) = ''data='' @ QueryEscape watchingXML
   \<and> ParseQuery (ReqBody (signed ((add55 watchingXML)\<lparr>Header := []\<rparr>))) =
       ([(''data'', [watchingXML])], None)"
proof -
  let ?req = "signed ((add55 watchingXML)\<lparr>Header := []\<rparr>)"
  let ?c = "testClient (stubServer 200 ''Created'')"
  have r: "NewRequest (Marshal_AnimeEntry (\<lambda>x. [])) ?c ''POST'' (addAnimeURL @ ''55.xml'')
             (Some watching) = Inr ?req"
    by code_simp
  from Add_request_data [where FormatFloat = "\<lambda>x. []" and e = watching and c = ?c
      and verb = "''POST''" and urlStr = "addAnimeURL @ ''55.xml''" and req = ?req]
  obtain data where d: "Marshal_AnimeEntry (\<lambda>x. []) watching = Inr data"
    and i: "NewRequest (Marshal_AnimeEntry (\<lambda>x. [])) ?c ''POST'' (addAnimeURL @ ''55.xml'')
              (Some watching) = Inr ?req \<longrightarrow>
            ReqBody ?req = ''data='' @ QueryEscape data
            \<and> ParseQuery (ReqBody ?req) = ([(''data'', [data])], None)"
    and w: "Marshal_AnimeEntry (\<lambda>x. []) watching = Inr watchingXML"
    by blast
  from d w have eq: "data = watchingXML" by simp
  from i r have "ReqBody ?req = ''data='' @ QueryEscape data
      \<and> ParseQuery (ReqBody ?req) = ([(''data'', [data])], None)"
    by (rule mp)
  with r show ?thesis unfolding eq by blast
qed

subsection \<open>Decimal numerals and \<open>Atoi\<close>\<close>

lemma digit_cases: "d < 10 \<Longrightarrow> d \<in> {0, 1, 2, 3, 4, 5, 6, 7, 8, 9 :: nat}"
  by auto

lemma digits_nth:
  assumes "d < 10"
  shows "isDigit (digits ! d)" and "digitVal (digits ! d) = d"
    and "digits ! d \<noteq> CHR ''-''" and "digits ! d \<noteq> CHR ''+''"
  using digit_cases [OF assms]
  by (auto simp: digits_def isDigit_def digitVal_def less_eq_char_def)

lemma decimal_append: "decimal n (xs @ ys) = decimal (decimal n xs) ys"
  by (induction xs arbitrary: n) auto

lemma decimal_ge: "n \<le> decimal n ds"
proof (induction ds arbitrary: n)
  case Nil
  show ?case by simp
next
  case (Cons c cs)
  have "n \<le> n * 10 + digitVal c" by simp
  also have "\<dots> \<le> decimal (n * 10 + digitVal c) cs" by (rule Cons.IH)
  finally show ?case by simp
qed

lemma formatBits_digits:
  "formatBits n \<noteq> [] \<and> list_all isDigit (formatBits n) \<and> decimal 0 (formatBits n) = n"
proof (induction n rule: formatBits.induct)
  case (1 n)
  show ?case
  proof (cases "n < 10")
    case True
    then show ?thesis
      by (subst (1 2 3) formatBits.simps) (simp add: digits_nth)
  next
    case False
    with "1" have ih: "formatBits (n div 10) \<noteq> []" "list_all isDigit (formatBits (n div 10))"
      "decimal 0 (formatBits (n div 10)) = n div 10"
      by simp_all
    have m: "n mod 10 < 10" by simp
    from False ih show ?thesis
      by (subst (1 2 3) formatBits.simps) (simp add: decimal_append digits_nth [OF m])
  qed
qed

lemma hd_formatBits: "isDigit (hd (formatBits n))"
  using formatBits_digits [of n] by (cases "formatBits n") auto

lemma isDigit_not_sign: "isDigit c \<Longrightarrow> c \<noteq> CHR ''-'' \<and> c \<noteq> CHR ''+''"
  by (auto simp: isDigit_def less_eq_char_def)

lemma Itoa_numeric: "is_numeric (Itoa n) \<and> numeric_value (Itoa n) = n"
proof (cases "n < 0")
  case True
  then show ?thesis
    using formatBits_digits [of "nat (- n)"]
    by (simp add: Itoa_def is_numeric_def numeric_value_def unsigned_part_def)
next
  case False
  then show ?thesis
    using formatBits_digits [of "nat n"] isDigit_not_sign [OF hd_formatBits [of "nat n"]]
    by (simp add: Itoa_def is_numeric_def numeric_value_def unsigned_part_def)
qed

lemma atoi_fast_digits:
  "list_all isDigit ds \<Longrightarrow> atoi_fast (int m) ds = Some (int (decimal m ds))"
proof (induction ds arbitrary: m)
  case Nil
  show ?case by simp
next
  case (Cons c cs)
  from Cons.prems have d: "list_all isDigit cs" "isDigit c" by simp_all
  from Cons.IH [OF d(1), of "m * 10 + digitVal c"] d(2) show ?case by simp
qed

lemma atoi_fast_other: "\<not> list_all isDigit ds \<Longrightarrow> atoi_fast n ds = None"
  by (induction ds arbitrary: n) auto

lemma parseUint_loop_digits:
  "list_all isDigit ds \<Longrightarrow> decimal n ds \<le> maxUint64 \<Longrightarrow> parseUint_loop n ds = Inr (decimal n ds)"
proof (induction ds arbitrary: n)
  case Nil
  show ?case by simp
next
  case (Cons c cs)
  let ?n1 = "n * 10 + digitVal c"
  from Cons.prems have le: "decimal ?n1 cs \<le> maxUint64" by simp
  with decimal_ge [of ?n1 cs] have n1: "?n1 \<le> maxUint64" by simp
  then have "n * 10 \<le> maxUint64" by simp
  then have "n \<le> maxUint64 div 10" by (simp add: less_eq_div_iff_mult_less_eq)
  then have c: "\<not> maxUint64 div 10 + 1 \<le> n" by simp
  from Cons.prems have "isDigit c" "list_all isDigit cs" by simp_all
  with Cons.IH [OF _ le] c n1 show ?case by simp
qed

lemma parseUint_loop_other:
  "\<not> list_all isDigit ds \<Longrightarrow>
     parseUint_loop n ds = Inl ErrSyntax \<or> parseUint_loop n ds = Inl ErrRange"
  by (induction ds arbitrary: n) auto


lemma Err_distinct: "ErrSyntax \<noteq> ErrRange"
  by (simp add: ErrSyntax_def ErrRange_def)

lemma Atoi_numeric:
  assumes "is_numeric s" and "fits_int (numeric_value s)"
  shows "Atoi s = Inr (numeric_value s)"
proof -
  let ?u = "unsigned_part s"
  from assms(1) have u: "?u \<noteq> []" "list_all isDigit ?u" by (simp_all add: is_numeric_def)
  then have s: "s \<noteq> []" by (auto simp: unsigned_part_def)
  show ?thesis
  proof (cases "length s < 19")
    case True
    with s u atoi_fast_digits [OF u(2), of 0] show ?thesis
      by (auto simp: Atoi_def Let_def unsigned_part_def numeric_value_def split: if_splits)
  next
    case False
    let ?v = "decimal 0 ?u"
    from assms(2) have "?v \<le> 2 ^ 63"
      by (auto simp: fits_int_def numeric_value_def split: if_splits)
    then have "?v \<le> maxUint64" by (simp add: maxUint64_def)
    from parseUint_loop_digits [OF u(2) this] u(1)
    have pu: "ParseUint ?u = (?v, None)" by (simp add: ParseUint_def)
    have pi: "ParseInt s = (numeric_value s, None)"
      using s pu assms(2)
      by (auto simp: ParseInt_def Let_def unsigned_part_def numeric_value_def fits_int_def
            intSize_def split: if_splits)
    from False s pi show ?thesis by (simp add: Atoi_def)
  qed
qed

lemma Atoi_not_numeric:
  assumes "\<not> is_numeric s"
  shows "Atoi s = Inl (NumError ''Atoi'' s ErrSyntax) \<or> Atoi s = Inl (NumError ''Atoi'' s ErrRange)"
proof (cases "0 < length s \<and> length s < 19")
  case True
  let ?u = "unsigned_part s"
  from True have s: "s \<noteq> []" by auto
  show ?thesis
  proof (cases "?u = []")
    case True
    with s \<open>0 < length s \<and> length s < 19\<close> show ?thesis
      by (auto simp: Atoi_def Let_def unsigned_part_def split: if_splits)
  next
    case False
    with assms have "\<not> list_all isDigit ?u" by (simp add: is_numeric_def)
    from atoi_fast_other [OF this, of 0] s \<open>0 < length s \<and> length s < 19\<close> False show ?thesis
      by (auto simp: Atoi_def Let_def unsigned_part_def split: if_splits)
  qed
next
  case False
  show ?thesis
  proof (cases "s = []")
    case True
    then show ?thesis by (simp add: Atoi_def ParseInt_def)
  next
    case ne: False
    let ?u = "unsigned_part s"
    from False ne have "19 \<le> length s" by auto
    then have "?u \<noteq> []" by (cases s) (auto simp: unsigned_part_def)
    with assms have nd: "\<not> list_all isDigit ?u" by (simp add: is_numeric_def)
    from parseUint_loop_other [OF nd, of 0]
    have "ParseInt s = (0, Some (NumError ''ParseInt'' s ErrSyntax))
          \<or> (\<exists>i. ParseInt s = (i, Some (NumError ''ParseInt'' s ErrRange)))"
    proof
      assume "parseUint_loop 0 ?u = Inl ErrSyntax"
      with \<open>?u \<noteq> []\<close> have "ParseUint ?u = (0, Some (NumError ''ParseUint'' ?u ErrSyntax))"
        by (simp add: ParseUint_def Err_distinct)
      with ne show ?thesis
        by (auto simp: ParseInt_def Let_def unsigned_part_def Err_distinct split: if_splits)
    next
      assume "parseUint_loop 0 ?u = Inl ErrRange"
      with \<open>?u \<noteq> []\<close> have "ParseUint ?u = (maxUint64, Some (NumError ''ParseUint'' ?u ErrRange))"
        by (simp add: ParseUint_def)
      with ne show ?thesis
        by (auto simp: ParseInt_def Let_def unsigned_part_def maxUint64_def intSize_def
              split: if_splits)
    qed
    with False ne show ?thesis by (auto simp: Atoi_def)
  qed
qed


lemma digitVal_le: "isDigit c \<Longrightarrow> digitVal c \<le> 9"
  by (auto simp: isDigit_def digitVal_def less_eq_char_def)

lemma decimal_bound: "list_all isDigit ds \<Longrightarrow> decimal n ds < (n + 1) * 10 ^ length ds"
proof (induction ds arbitrary: n)
  case Nil
  show ?case by simp
next
  case (Cons c cs)
  then have d: "digitVal c \<le> 9" and cs: "list_all isDigit cs" by (simp_all add: digitVal_le)
  have "decimal (n * 10 + digitVal c) cs < (n * 10 + digitVal c + 1) * 10 ^ length cs"
    by (rule Cons.IH [OF cs])
  also have "\<dots> \<le> (n * 10 + 10) * 10 ^ length cs"
    using d by (intro mult_right_mono) simp_all
  also have "\<dots> = (n + 1) * 10 ^ length (c # cs)" by (simp add: algebra_simps)
  finally show ?case by simp
qed

lemma parseUint_loop_overflow:
  "list_all isDigit ds \<Longrightarrow> n \<le> maxUint64 \<Longrightarrow> maxUint64 < decimal n ds \<Longrightarrow>
     parseUint_loop n ds = Inl ErrRange"
proof (induction ds arbitrary: n)
  case Nil
  then show ?case by simp
next
  case (Cons c cs)
  then have c: "isDigit c" and cs: "list_all isDigit cs" by simp_all
  show ?case
  proof (cases "maxUint64 div 10 + 1 \<le> n \<or> maxUint64 < n * 10 + digitVal c")
    case True
    with c show ?thesis by auto
  next
    case False
    with Cons.IH [OF cs, of "n * 10 + digitVal c"] Cons.prems(3) c show ?thesis by simp
  qed
qed

lemma short_numeric_fits:
  assumes "is_numeric s" and "length s < 19"
  shows "fits_int (numeric_value s)"
proof -
  let ?u = "unsigned_part s"
  from assms(1) have u: "list_all isDigit ?u" by (simp add: is_numeric_def)
  have "length ?u \<le> 18" using assms(2) by (auto simp: unsigned_part_def)
  then have "(10::nat) ^ length ?u \<le> 10 ^ 18" by (intro power_increasing) simp_all
  with decimal_bound [OF u, of 0] have "decimal 0 ?u < 10 ^ 18" by simp
  then have "int (decimal 0 ?u) < 10 ^ 18"
    by (metis of_nat_less_iff of_nat_numeral of_nat_power)
  then show ?thesis by (simp add: fits_int_def numeric_value_def)
qed

lemma Atoi_out_of_range:
  assumes "is_numeric s" and "\<not> fits_int (numeric_value s)"
  shows "Atoi s = Inl (NumError ''Atoi'' s ErrRange)"
proof -
  let ?u = "unsigned_part s"
  let ?v = "decimal 0 ?u"
  from assms(1) have u: "?u \<noteq> []" "list_all isDigit ?u" by (simp_all add: is_numeric_def)
  then have s: "s \<noteq> []" by (auto simp: unsigned_part_def)
  from assms short_numeric_fits have long: "\<not> length s < 19" by blast
  have "\<exists>i. ParseInt s = (i, Some (NumError ''ParseInt'' s ErrRange))"
  proof (cases "?v \<le> maxUint64")
    case True
    from parseUint_loop_digits [OF u(2) True] u(1)
    have "ParseUint ?u = (?v, None)" by (simp add: ParseUint_def)
    with s assms(2) show ?thesis
      by (auto simp: ParseInt_def Let_def unsigned_part_def numeric_value_def fits_int_def
            intSize_def split: if_splits)
  next
    case False
    then have "maxUint64 < ?v" by simp
    from parseUint_loop_overflow [OF u(2) _ this] u(1)
    have "ParseUint ?u = (maxUint64, Some (NumError ''ParseUint'' ?u ErrRange))"
      by (simp add: ParseUint_def)
    with s show ?thesis
      by (auto simp: ParseInt_def Let_def unsigned_part_def maxUint64_def intSize_def
            split: if_splits)
  qed
  with long s show ?thesis by (auto simp: Atoi_def)
qed

subsection \<open>The offset of a page URL\<close>

lemma parseOffset_numeric:
  assumes "Parse urlStr = Inr u" and "is_numeric (Values_Get (Query u) ''offset'')"
    and "fits_int (numeric_value (Values_Get (Query u) ''offset''))"
  shows "parseOffset urlStr = Inr (numeric_value (Values_Get (Query u) ''offset''))"
  using assms Atoi_numeric [of "Values_Get (Query u) ''offset''"]
  by (simp add: parseOffset_def)

lemma parseOffset_Itoa:
  assumes "Parse urlStr = Inr u" and "Values_Get (Query u) ''offset'' = Itoa n" and "fits_int n"
  shows "parseOffset urlStr = Inr n"
  using parseOffset_numeric [OF assms(1)] assms(2,3) Itoa_numeric [of n] by simp

text \<open>
  Claim C6, as amended. When the URL parses and its \<open>offset\<close> parameter (the first
  value of the key in the query) is the decimal text of an integer \<open>n\<close> within the
  range of a 64-bit \<open>int\<close>, \<open>parseOffset\<close> returns \<open>n\<close>; more generally it returns the
  value of any parameter that is an optional sign followed by digits and denotes an
  integer in that range. When the URL does not parse, it fails with an error that
  wraps the parse error. When the URL parses and the parameter is missing or is not
  numeric, it fails with an error that wraps the error of \<open>Atoi\<close>; when the parameter
  is numeric and denotes an integer outside the range of \<open>int\<close>, it fails with the
  range error of \<open>Atoi\<close>.
\<close>

theorem parseOffset_cases:
  "(Parse urlStr = Inr u \<and> Values_Get (Query u) ''offset'' = Itoa n \<and> fits_int n \<longrightarrow>
      parseOffset urlStr = Inr n)
   \<and> (Parse urlStr = Inr u \<and> is_numeric (Values_Get (Query u) ''offset'')
        \<and> fits_int (numeric_value (Values_Get (Query u) ''offset'')) \<longrightarrow>
      parseOffset urlStr = Inr (numeric_value (Values_Get (Query u) ''offset'')))
   \<and> (Parse urlStr = Inl err \<longrightarrow>
      parseOffset urlStr = Inl (Errorf ''parsing URL %q: %s'' [urlStr] (Some err)))
   \<and> (Parse urlStr = Inr u
        \<and> (map_of (Query u) ''offset'' = None \<or> \<not> is_numeric (Values_Get (Query u) ''offset'')) \<longrightarrow>
      (\<exists>e. parseOffset urlStr =
             Inl (Errorf ''parsing offset: %s'' []
                    (Some (NumError ''Atoi'' (Values_Get (Query u) ''offset'') e)))))
   \<and> (Parse urlStr = Inr u \<and> is_numeric (Values_Get (Query u) ''offset'')
        \<and> \<not> fits_int (numeric_value (Values_Get (Query u) ''offset'')) \<longrightarrow>
      parseOffset urlStr =
        Inl (Errorf ''parsing offset: %s'' []
               (Some (NumError ''Atoi'' (Values_Get (Query u) ''offset'') ErrRange))))"
proof (intro conjI impI)
  assume "Parse urlStr = Inr u \<and> Values_Get (Query u) ''offset'' = Itoa n \<and> fits_int n"
  then show "parseOffset urlStr = Inr n" by (blast intro: parseOffset_Itoa)
next
  assume "Parse urlStr = Inr u \<and> is_numeric (Values_Get (Query u) ''offset'')
          \<and> fits_int (numeric_value (Values_Get (Query u) ''offset''))"
  then show "parseOffset urlStr = Inr (numeric_value (Values_Get (Query u) ''offset''))"
    by (blast intro: parseOffset_numeric)
next
  assume "Parse urlStr = Inl err"
  then show "parseOffset urlStr = Inl (Errorf ''parsing URL %q: %s'' [urlStr] (Some err))"
    by (simp add: parseOffset_def)
next
  assume a: "Parse urlStr = Inr u
             \<and> (map_of (Query u) ''offset'' = None \<or> \<not> is_numeric (Values_Get (Query u) ''offset''))"
  have "map_of (Query u) ''offset'' = None \<Longrightarrow> Values_Get (Query u) ''offset'' = []"
    by (simp add: Values_Get_def Values_lookup_def)
  moreover have "\<not> is_numeric []" by (simp add: is_numeric_def unsigned_part_def)
  ultimately have "\<not> is_numeric (Values_Get (Query u) ''offset'')" using a by auto
  from Atoi_not_numeric [OF this] a
  show "\<exists>e. parseOffset urlStr =
             Inl (Errorf ''parsing offset: %s'' []
                    (Some (NumError ''Atoi'' (Values_Get (Query u) ''offset'') e)))"
    by (auto simp: parseOffset_def)
next
  assume "Parse urlStr = Inr u \<and> is_numeric (Values_Get (Query u) ''offset'')
          \<and> \<not> fits_int (numeric_value (Values_Get (Query u) ''offset''))"
  with Atoi_out_of_range [of "Values_Get (Query u) ''offset''"]
  show "parseOffset urlStr =
        Inl (Errorf ''parsing offset: %s'' []
               (Some (NumError ''Atoi'' (Values_Get (Query u) ''offset'') ErrRange)))"
    by (simp add: parseOffset_def)
qed

lemma Parse_page12:
  "Parse ''https://api.myanimelist.net/v2/anime?q=hokuto&offset=12'' =
   Inr (emptyURL\<lparr>Scheme := ''https'', Host := ''api.myanimelist.net'', Path := ''/v2/anime'',
                 RawQuery := ''q=hokuto&offset=12''\<rparr>)"
  by code_simp

lemma Query_page12:
  "Query (emptyURL\<lparr>Scheme := ''https'', Host := ''api.myanimelist.net'', Path := ''/v2/anime'',
                 RawQuery := ''q=hokuto&offset=12''\<rparr>) = [(''q'', [''hokuto'']), (''offset'', [''12''])]"
  by code_simp

lemma Parse_page_limit:
  "Parse ''https://api.myanimelist.net/v2/anime?limit=4'' =
   Inr (emptyURL\<lparr>Scheme := ''https'', Host := ''api.myanimelist.net'', Path := ''/v2/anime'',
                 RawQuery := ''limit=4''\<rparr>)"
  by code_simp

lemma Query_page_limit:
  "Query (emptyURL\<lparr>Scheme := ''https'', Host := ''api.myanimelist.net'', Path := ''/v2/anime'',
                 RawQuery := ''limit=4''\<rparr>) = [(''limit'', [''4''])]"
  by code_simp

lemma Parse_bad: "Parse ''%zz'' = Inl (URLError ''parse'' ''%zz'' (EscapeError ''%zz''))"
  by code_simp

lemma Itoa_12: "Itoa 12 = ''12''"
  by code_simp

text \<open>
  The theorem at a page URL with \<open>offset=12\<close>, at a string that is not a URL, and at
  a page URL without an offset.
\<close>

theorem parseOffset_cases_witness:
  "parseOffset ''https://api.myanimelist.net/v2/anime?q=hokuto&offset=12'' = Inr 12
   \<and> parseOffset ''%zz'' =
       Inl (Errorf ''parsing URL %q: %s'' [''%zz'']
              (Some (URLError ''parse'' ''%zz'' (EscapeError ''%zz''))))
   \<and> (\<exists>e. parseOffset ''https://api.myanimelist.net/v2/anime?limit=4'' =
             Inl (Errorf ''parsing offset: %s'' [] (Some (NumError ''Atoi'' [] e))))"
proof -
  let ?u = "emptyURL\<lparr>Scheme := ''https'', Host := ''api.myanimelist.net'', Path := ''/v2/anime'',
                      RawQuery := ''q=hokuto&offset=12''\<rparr>"
  let ?v = "emptyURL\<lparr>Scheme := ''https'', Host := ''api.myanimelist.net'', Path := ''/v2/anime'',
                      RawQuery := ''limit=4''\<rparr>"
  have g: "Values_Get (Query ?u) ''offset'' = Itoa 12"
    unfolding Query_page12 Itoa_12 by (simp add: Values_Get_def Values_lookup_def)
  have f: "fits_int 12" by (simp add: fits_int_def)
  have m: "map_of (Query ?v) ''offset'' = None" "Values_Get (Query ?v) ''offset'' = []"
    unfolding Query_page_limit by (simp_all add: Values_Get_def Values_lookup_def)
  from parseOffset_cases
         [of "''https://api.myanimelist.net/v2/anime?q=hokuto&offset=12''" ?u 12]
       Parse_page12 g f
  have 1: "parseOffset ''https://api.myanimelist.net/v2/anime?q=hokuto&offset=12'' = Inr 12"
    by blast
  from parseOffset_cases [of "''%zz''" _ _ "URLError ''parse'' ''%zz'' (EscapeError ''%zz'')"]
       Parse_bad
  have 2: "parseOffset ''%zz'' =
       Inl (Errorf ''parsing URL %q: %s'' [''%zz'']
              (Some (URLError ''parse'' ''%zz'' (EscapeError ''%zz''))))"
    by blast
  from parseOffset_cases [of "''https://api.myanimelist.net/v2/anime?limit=4''" ?v]
       Parse_page_limit m
  have 3: "\<exists>e. parseOffset ''https://api.myanimelist.net/v2/anime?limit=4'' =
             Inl (Errorf ''parsing offset: %s'' [] (Some (NumError ''Atoi'' [] e)))"
    by (metis (no_types))
  from 1 2 3 show ?thesis by blast
qed

lemma Parse_page_big:
  "Parse ''https://api.myanimelist.net/v2/anime?offset=9223372036854775808'' =
   Inr (emptyURL\<lparr>Scheme := ''https'', Host := ''api.myanimelist.net'', Path := ''/v2/anime'',
                 RawQuery := ''offset=9223372036854775808''\<rparr>)"
  by code_simp

lemma Query_page_big:
  "Query (emptyURL\<lparr>Scheme := ''https'', Host := ''api.myanimelist.net'', Path := ''/v2/anime'',
                 RawQuery := ''offset=9223372036854775808''\<rparr>) = [(''offset'', [''9223372036854775808''])]"
  by code_simp

lemma Atoi_big:
  "Atoi ''9223372036854775808'' = Inl (NumError ''Atoi'' ''9223372036854775808'' ErrRange)"
  by (simp add: Atoi_def ParseInt_def ParseUint_def isDigit_def digitVal_def maxUint64_def
      intSize_def ErrRange_def ErrSyntax_def Let_def)

lemma Itoa_big: "Itoa 9223372036854775808 = ''9223372036854775808''"
  by (simp add: Itoa_def digits_def formatBits.simps)

text \<open>
  Claim C6 as stated fails: the offset \<open>9223372036854775808\<close> is a decimal integer,
  and \<open>parseOffset\<close> does not return it but fails, because it is not an \<open>int\<close>.
\<close>

theorem parseOffset_range_counterexample:
  "(\<exists>u. Parse ''https://api.myanimelist.net/v2/anime?offset=9223372036854775808'' = Inr u
        \<and> Values_Get (Query u) ''offset'' = Itoa 9223372036854775808)
   \<and> parseOffset ''https://api.myanimelist.net/v2/anime?offset=9223372036854775808'' =
       Inl (Errorf ''parsing offset: %s'' []
              (Some (NumError ''Atoi'' ''9223372036854775808'' ErrRange)))"
proof -
  let ?u = "emptyURL\<lparr>Scheme := ''https'', Host := ''api.myanimelist.net'', Path := ''/v2/anime'',
                      RawQuery := ''offset=9223372036854775808''\<rparr>"
  have g: "Values_Get (Query ?u) ''offset'' = ''9223372036854775808''"
    unfolding Query_page_big by (simp add: Values_Get_def Values_lookup_def)
  then have "Values_Get (Query ?u) ''offset'' = Itoa 9223372036854775808"
    by (simp only: Itoa_big)
  moreover have "parseOffset ''https://api.myanimelist.net/v2/anime?offset=9223372036854775808'' =
       Inl (Errorf ''parsing offset: %s'' []
              (Some (NumError ''Atoi'' ''9223372036854775808'' ErrRange)))"
    unfolding parseOffset_def Parse_page_big by (simp only: g Atoi_big sum.case)
  ultimately show ?thesis using Parse_page_big by blast
qed


subsection \<open>Listing\<close>

text \<open>
  Claim C8, as amended. Let the request be built and \<open>do\<close> succeed with the response
  \<open>resp\<close> and the decoded envelope \<open>l\<close>. If each of the two paging URLs is empty or
  parses and carries an \<open>offset\<close> parameter that is the decimal text of an integer in
  the range of \<open>int\<close>, \<open>List\<close> returns the nodes of \<open>l\<close> in their order, no error,
  and the response with \<open>PrevOffset\<close> and \<open>NextOffset\<close> set to those integers (an
  offset whose URL is empty keeps its value). If \<open>parseOffset\<close> fails on a non-empty
  previous or next URL, \<open>List\<close> returns no list and an error.
\<close>

theorem List_paging:
  assumes "newRequest ''GET'' ''anime'' = Inr req"
    and "do (List_request req q limit offset fs) = Inr (resp, l)"
  shows "((Previous (Paging l) = [] \<and> p = PrevOffset resp
            \<or> Previous (Paging l) \<noteq> []
              \<and> (\<exists>u. Parse (Previous (Paging l)) = Inr u
                    \<and> Values_Get (Query u) ''offset'' = Itoa p \<and> fits_int p))
          \<and> (Next (Paging l) = [] \<and> n = NextOffset resp
            \<or> Next (Paging l) \<noteq> []
              \<and> (\<exists>u. Parse (Next (Paging l)) = Inr u
                    \<and> Values_Get (Query u) ''offset'' = Itoa n \<and> fits_int n)) \<longrightarrow>
          List newRequest do q limit offset fs =
            (Some (map Anime (Data l)), Some (resp\<lparr>PrevOffset := p, NextOffset := n\<rparr>), None))
         \<and> (Previous (Paging l) \<noteq> [] \<and> parseOffset (Previous (Paging l)) = Inl e \<longrightarrow>
          List newRequest do q limit offset fs =
            (None, Some resp, Some (Errorf ''previous: %s'' [] (Some e))))
         \<and> (Next (Paging l) \<noteq> [] \<and> parseOffset (Next (Paging l)) = Inl e \<longrightarrow>
          fst (List newRequest do q limit offset fs) = None
          \<and> snd (snd (List newRequest do q limit offset fs)) \<noteq> None)"
proof (intro conjI impI)
  assume a: "(Previous (Paging l) = [] \<and> p = PrevOffset resp
            \<or> Previous (Paging l) \<noteq> []
              \<and> (\<exists>u. Parse (Previous (Paging l)) = Inr u
                    \<and> Values_Get (Query u) ''offset'' = Itoa p \<and> fits_int p))
          \<and> (Next (Paging l) = [] \<and> n = NextOffset resp
            \<or> Next (Paging l) \<noteq> []
              \<and> (\<exists>u. Parse (Next (Paging l)) = Inr u
                    \<and> Values_Get (Query u) ''offset'' = Itoa n \<and> fits_int n))"
  have prev: "Previous (Paging l) \<noteq> [] \<Longrightarrow> parseOffset (Previous (Paging l)) = Inr p"
    using a by (blast intro: parseOffset_Itoa)
  have nxt: "Next (Paging l) \<noteq> [] \<Longrightarrow> parseOffset (Next (Paging l)) = Inr n"
    using a by (blast intro: parseOffset_Itoa)
  have p0: "Previous (Paging l) = [] \<Longrightarrow> p = PrevOffset resp" using a by blast
  have n0: "Next (Paging l) = [] \<Longrightarrow> n = NextOffset resp" using a by blast
  show "List newRequest do q limit offset fs =
          (Some (map Anime (Data l)), Some (resp\<lparr>PrevOffset := p, NextOffset := n\<rparr>), None)"
    using assms prev nxt p0 n0 by (simp add: List_def)
next
  assume "Previous (Paging l) \<noteq> [] \<and> parseOffset (Previous (Paging l)) = Inl e"
  with assms show "List newRequest do q limit offset fs =
            (None, Some resp, Some (Errorf ''previous: %s'' [] (Some e)))"
    by (simp add: List_def)
next
  assume b: "Next (Paging l) \<noteq> [] \<and> parseOffset (Next (Paging l)) = Inl e"
  with assms show "fst (List newRequest do q limit offset fs) = None"
    by (simp add: List_def split: sum.splits)
  from b assms show "snd (snd (List newRequest do q limit offset fs)) \<noteq> None"
    by (simp add: List_def split: sum.splits)
qed

lemma stubNewRequest_anime:
  "stubNewRequest ''GET'' ''anime'' =
   Inr \<lparr>Method = ''GET'',
        URL = emptyURL\<lparr>Scheme := ''https'', Host := ''api.myanimelist.net'', Path := ''/v2/anime''\<rparr>,
        Header = [], ReqBody = []\<rparr>"
  by code_simp

lemma Parse_page4:
  "Parse ''https://api.myanimelist.net/v2/anime?q=hokuto&offset=4'' =
   Inr (emptyURL\<lparr>Scheme := ''https'', Host := ''api.myanimelist.net'', Path := ''/v2/anime'',
                 RawQuery := ''q=hokuto&offset=4''\<rparr>)"
  by code_simp

lemma Query_page4:
  "Query (emptyURL\<lparr>Scheme := ''https'', Host := ''api.myanimelist.net'', Path := ''/v2/anime'',
                 RawQuery := ''q=hokuto&offset=4''\<rparr>) = [(''q'', [''hokuto'']), (''offset'', [''4''])]"
  by code_simp

lemma Itoa_4: "Itoa 4 = ''4''"
  by code_simp

text \<open>
  The theorem at an envelope of two nodes whose paging URLs have the offsets 4 and 12.
\<close>

theorem List_paging_witness:
  "fst (List stubNewRequest
          (stubDo (page ''https://api.myanimelist.net/v2/anime?q=hokuto&offset=4''
                        ''https://api.myanimelist.net/v2/anime?q=hokuto&offset=12''))
          ''hokuto'' 4 8 []) = Some [''Hokuto no Ken'', ''Hokuto no Ken 2'']
   \<and> map_option PrevOffset (fst (snd (List stubNewRequest
          (stubDo (page ''https://api.myanimelist.net/v2/anime?q=hokuto&offset=4''
                        ''https://api.myanimelist.net/v2/anime?q=hokuto&offset=12''))
          ''hokuto'' 4 8 []))) = Some 4
   \<and> map_option NextOffset (fst (snd (List stubNewRequest
          (stubDo (page ''https://api.myanimelist.net/v2/anime?q=hokuto&offset=4''
                        ''https://api.myanimelist.net/v2/anime?q=hokuto&offset=12''))
          ''hokuto'' 4 8 []))) = Some 12
   \<and> snd (snd (List stubNewRequest
          (stubDo (page ''https://api.myanimelist.net/v2/anime?q=hokuto&offset=4''
                        ''https://api.myanimelist.net/v2/anime?q=hokuto&offset=12''))
          ''hokuto'' 4 8 [])) = None"
proof -
  let ?prev = "''https://api.myanimelist.net/v2/anime?q=hokuto&offset=4''"
  let ?next = "''https://api.myanimelist.net/v2/anime?q=hokuto&offset=12''"
  let ?l = "page ?prev ?next"
  let ?u4 = "emptyURL\<lparr>Scheme := ''https'', Host := ''api.myanimelist.net'', Path := ''/v2/anime'',
                      RawQuery := ''q=hokuto&offset=4''\<rparr>"
  let ?u12 = "emptyURL\<lparr>Scheme := ''https'', Host := ''api.myanimelist.net'', Path := ''/v2/anime'',
                      RawQuery := ''q=hokuto&offset=12''\<rparr>"
  have g4: "Values_Get (Query ?u4) ''offset'' = Itoa 4"
    unfolding Query_page4 Itoa_4 by (simp add: Values_Get_def Values_lookup_def)
  have g12: "Values_Get (Query ?u12) ''offset'' = Itoa 12"
    unfolding Query_page12 Itoa_12 by (simp add: Values_Get_def Values_lookup_def)
  have f: "fits_int 4" "fits_int 12" by (simp_all add: fits_int_def)
  have pg: "Previous (Paging ?l) = ?prev" "Next (Paging ?l) = ?next"
    "map Anime (Data ?l) = [''Hokuto no Ken'', ''Hokuto no Ken 2'']"
    by (simp_all add: page_def)
  have hp: "Previous (Paging ?l) \<noteq> []
            \<and> (\<exists>u. Parse (Previous (Paging ?l)) = Inr u
                  \<and> Values_Get (Query u) ''offset'' = Itoa 4 \<and> fits_int 4)"
    unfolding pg using Parse_page4 g4 f by blast
  have hn: "Next (Paging ?l) \<noteq> []
            \<and> (\<exists>u. Parse (Next (Paging ?l)) = Inr u
                  \<and> Values_Get (Query u) ''offset'' = Itoa 12 \<and> fits_int 12)"
    unfolding pg using Parse_page12 g12 f by blast
  from List_paging [of stubNewRequest _ "stubDo ?l" "''hokuto''" 4 8 "[]" _ ?l 4 12,
                    OF stubNewRequest_anime]
       hp hn
  have "List stubNewRequest (stubDo ?l) ''hokuto'' 4 8 [] =
        (Some (map Anime (Data ?l)),
         Some (\<lparr>Response = \<lparr>StatusCode = 200,
                  Request = List_request
                    \<lparr>Method = ''GET'',
                     URL = emptyURL\<lparr>Scheme := ''https'', Host := ''api.myanimelist.net'',
                                     Path := ''/v2/anime''\<rparr>,
                     Header = [], ReqBody = []\<rparr> ''hokuto'' 4 8 [],
                  RespBody = Inr []\<rparr>, Body = [],
                NextOffset = 0, PrevOffset = 0\<rparr>\<lparr>PrevOffset := 4, NextOffset := 12\<rparr>), None)"
    by (simp add: stubDo_def)
  then show ?thesis by (simp add: pg)
qed

text \<open>
  Claim C8 as stated fails: for a successful response whose next URL has no offset
  parameter, \<open>List\<close> returns no list but an error.
\<close>

theorem List_paging_counterexample:
  "fst (List stubNewRequest
          (stubDo (page [] ''https://api.myanimelist.net/v2/anime?limit=4''))
          ''hokuto'' 4 0 []) = None
   \<and> snd (snd (List stubNewRequest
          (stubDo (page [] ''https://api.myanimelist.net/v2/anime?limit=4''))
          ''hokuto'' 4 0 [])) =
       Some (Errorf ''next: %s'' []
              (Some (Errorf ''parsing offset: %s'' [] (Some (NumError ''Atoi'' [] ErrSyntax)))))"
  by code_simp

end
